theory Spec2Isabelle
  imports Main "HOL-Library.Multiset"
begin

section \<open>Exceptions, effects and data shared by the SDK variants\<close>

text \<open>
  The repository holds one SDK in several variants: the package under \<^verbatim>\<open>forge/\<close>
  (\<^verbatim>\<open>utils.py\<close>, \<^verbatim>\<open>auth.py\<close>, \<^verbatim>\<open>config.py\<close>), the single file \<^verbatim>\<open>sdk_0.py\<close>, and
  \<^verbatim>\<open>production-sdk.py\<close>, \<^verbatim>\<open>production-sdk (1).py\<close>, \<^verbatim>\<open>production-sdk (2).py\<close>.
  Functions of the same name are told apart by a suffix: \<open>_sdk0\<close>, \<open>_v0\<close>
  (production-sdk.py), \<open>_v1\<close> (production-sdk (1).py), \<open>_v2\<close> (production-sdk (2).py).

  A Python exception is a value of \<open>exn\<close>, and a call that may raise returns
  \<open>exn + 'a\<close> with \<open>Inl\<close> for the raise. \<open>RequestException\<close> stands for
  \<^verbatim>\<open>requests.exceptions.RequestException\<close> and its subclasses; its first argument
  is the kind of transport failure (connection failure, HTTP status raised by
  \<^verbatim>\<open>raise_for_status\<close>, body that does not decode as JSON), its second the message.
  The SDK's own exceptions carry their message and, where the class has one, the
  \<^verbatim>\<open>original_error\<close>.
\<close>

datatype failure = NetworkFailure | HTTPStatus nat | DecodeFailure

datatype exn =
    RequestException failure string
  | AttributeError string
  | NameError string
  | ValueError string
  | OverflowError string
  | Exception string
  | APIError string "exn option"
  | ValidationError string
  | AuthenticationError string "exn option"
  | SchedulingError string "exn option"
  | SDKException string

text \<open>
  \<^verbatim>\<open>str(e)\<close>: the message of the exception. Python writes the name a
  \<^verbatim>\<open>NameError\<close> is about between single quotes.
\<close>

definition quoted :: "string \<Rightarrow> string" where
  "quoted s = CHR 0x27 # s @ [CHR 0x27]"

fun str_exn :: "exn \<Rightarrow> string" where
  "str_exn (RequestException k m) = m"
| "str_exn (AttributeError m) = m"
| "str_exn (NameError n) = ''name '' @ quoted n @ '' is not defined''"
| "str_exn (ValueError m) = m"
| "str_exn (OverflowError m) = m"
| "str_exn (Exception m) = m"
| "str_exn (APIError m c) = m"
| "str_exn (ValidationError m) = m"
| "str_exn (AuthenticationError m c) = m"
| "str_exn (SchedulingError m c) = m"
| "str_exn (SDKException m) = m"

text \<open>
  Effects are recorded as a trace: \<open>Call k\<close> is the \<open>k\<close>-th invocation of the function
  handed to a retry helper, \<open>Post u\<close> a transport call for document \<open>u\<close>, \<open>Sleep s\<close> a
  call of \<^verbatim>\<open>sleep(s)\<close> that slept and returned.
\<close>

type_synonym url = string

datatype event = Call nat | Post url | Sleep int

fun is_Sleep :: "event \<Rightarrow> bool" where
  "is_Sleep (Sleep s) = True"
| "is_Sleep e = False"

fun is_Call :: "event \<Rightarrow> bool" where
  "is_Call (Call k) = True"
| "is_Call e = False"

fun is_Post :: "event \<Rightarrow> bool" where
  "is_Post (Post u) = True"
| "is_Post e = False"

text \<open>Python's \<^verbatim>\<open>range(n)\<close> for an integer \<open>n\<close>: empty when \<open>n \<le> 0\<close>.\<close>

definition py_range :: "int \<Rightarrow> nat list" where
  "py_range n = [0..<nat n]"

text \<open>
  \<^verbatim>\<open>time.sleep(secs)\<close> raises \<^verbatim>\<open>ValueError\<close> for a negative length. A length that is
  not negative but more than the platform can sleep raises too (\<^verbatim>\<open>OverflowError\<close>
  or \<^verbatim>\<open>OSError\<close>, at a bound that depends on the platform): \<open>too_long secs\<close> is
  that exception, and \<open>None\<close> when the platform sleeps \<open>secs\<close> seconds. \<open>sleep\<close>
  returns the exception raised, or \<open>None\<close> when the call slept and returned.
\<close>

definition sleep :: "(int \<Rightarrow> exn option) \<Rightarrow> int \<Rightarrow> exn option" where
  "sleep too_long secs =
     (if secs < 0 then Some (ValueError ''sleep length must be non-negative'') else too_long secs)"

text \<open>
  An instance of \<open>too_long\<close>: CPython keeps the length as a signed 64-bit count of
  nanoseconds and raises \<^verbatim>\<open>OverflowError\<close> for more than 9223372036 seconds (the
  operating system may refuse shorter lengths than that).
\<close>

definition cpython_too_long :: "int \<Rightarrow> exn option" where
  "cpython_too_long secs =
     (if 9223372036 < secs then Some (OverflowError ''timestamp too large to convert to C _PyTime_t'')
      else None)"

section \<open>forge/utils.py: retry\<close>

text \<open>
  \<^verbatim>\<open>
  def retry(func, retries=3, delay=2):
      for attempt in range(retries):
          try:
              return func()
          except Exception as e:
              if attempt == retries - 1:
                  raise e
              sleep(delay * (2 ** attempt))
  \<close>
  \<open>func k\<close> is what the \<open>k\<close>-th call of \<^verbatim>\<open>func()\<close> does (one call per attempt).
  The loop is a recursion over the attempts of \<^verbatim>\<open>range(retries)\<close>; when they run out
  the function falls off its end and returns Python's \<^verbatim>\<open>None\<close>, here \<open>Inr None\<close>.
  \<^verbatim>\<open>sleep\<close> is called inside the handler: an exception it raises leaves \<^verbatim>\<open>retry\<close>.
\<close>

fun retry_loop ::
  "(int \<Rightarrow> exn option) \<Rightarrow> (nat \<Rightarrow> exn + 'a) \<Rightarrow> int \<Rightarrow> int \<Rightarrow> nat list \<Rightarrow>
   event list \<times> (exn + 'a option)" where
  "retry_loop too_long func retries delay [] = ([], Inr None)"
| "retry_loop too_long func retries delay (attempt # rest) =
     (case func attempt of
        Inr v \<Rightarrow> ([Call attempt], Inr (Some v))
      | Inl e \<Rightarrow>
          if int attempt = retries - 1 then ([Call attempt], Inl e)
          else (case sleep too_long (delay * 2 ^ attempt) of
                  Some e' \<Rightarrow> ([Call attempt], Inl e')
                | None \<Rightarrow>
                    (case retry_loop too_long func retries delay rest of
                       (tr, r) \<Rightarrow> (Call attempt # Sleep (delay * 2 ^ attempt) # tr, r))))"

definition retry ::
  "(int \<Rightarrow> exn option) \<Rightarrow> (nat \<Rightarrow> exn + 'a) \<Rightarrow> int \<Rightarrow> int \<Rightarrow> event list \<times> (exn + 'a option)" where
  "retry too_long func retries delay = retry_loop too_long func retries delay (py_range retries)"

text \<open>
  The trace of a call that fails on every one of \<open>n\<close> attempts, as the claims describe
  it: attempt \<open>k\<close>, then (except after the last attempt) a sleep of
  \<open>delay * 2 ^ k\<close>. \<open>sleeps_accepted\<close> says that \<^verbatim>\<open>sleep\<close> accepts the first \<open>n\<close> of
  these lengths.
\<close>

definition sleeps_accepted :: "(int \<Rightarrow> exn option) \<Rightarrow> int \<Rightarrow> nat \<Rightarrow> bool" where
  "sleeps_accepted too_long delay n = list_all (\<lambda>k. sleep too_long (delay * 2 ^ k) = None) [0..<n]"


fun backoff_trace :: "int \<Rightarrow> nat \<Rightarrow> nat \<Rightarrow> event list" where
  "backoff_trace delay k 0 = []"
| "backoff_trace delay k (Suc 0) = [Call k]"
| "backoff_trace delay k (Suc (Suc n)) =
     Call k # Sleep (delay * 2 ^ k) # backoff_trace delay (Suc k) (Suc n)"

section \<open>sdk_0.py: retry, call_process, process_documents\<close>

text \<open>Decimal printing of an integer, for the f-strings that format one.\<close>

definition digit_char :: "nat \<Rightarrow> char" where
  "digit_char n = ''0123456789'' ! n"

fun str_nat :: "nat \<Rightarrow> string" where
  "str_nat n = (if n < 10 then [digit_char n] else str_nat (n div 10) @ [digit_char (n mod 10)])"

definition str_int :: "int \<Rightarrow> string" where
  "str_int i = (if i < 0 then CHR ''-'' # str_nat (nat (- i)) else str_nat (nat i))"

text \<open>
  \<^verbatim>\<open>
  def retry(func, retries=3, delay=2):
      for attempt in range(retries):
          try:
              return func()
          except Exception as e:
              logger.warning(f"Attempt {attempt + 1} failed: {e}")
              time.sleep(delay * (2 ** attempt))
      raise Exception(f"All {retries} retries failed.")
  \<close>
  The loop returns \<open>Inr (Some v)\<close> when a call returned \<open>v\<close>, \<open>Inl e\<close> when
  \<^verbatim>\<open>time.sleep\<close> raised \<open>e\<close> inside the handler, and \<open>Inr None\<close> when the attempts ran
  out; the \<^verbatim>\<open>raise\<close> after the loop is then reached.
\<close>

fun retry_loop_sdk0 ::
  "(int \<Rightarrow> exn option) \<Rightarrow> (nat \<Rightarrow> exn + 'a) \<Rightarrow> int \<Rightarrow> nat list \<Rightarrow> event list \<times> (exn + 'a option)" where
  "retry_loop_sdk0 too_long func delay [] = ([], Inr None)"
| "retry_loop_sdk0 too_long func delay (attempt # rest) =
     (case func attempt of
        Inr v \<Rightarrow> ([Call attempt], Inr (Some v))
      | Inl e \<Rightarrow>
          (case sleep too_long (delay * 2 ^ attempt) of
             Some e' \<Rightarrow> ([Call attempt], Inl e')
           | None \<Rightarrow>
               (case retry_loop_sdk0 too_long func delay rest of
                  (tr, r) \<Rightarrow> (Call attempt # Sleep (delay * 2 ^ attempt) # tr, r))))"

definition retry_sdk0 ::
  "(int \<Rightarrow> exn option) \<Rightarrow> (nat \<Rightarrow> exn + 'a) \<Rightarrow> int \<Rightarrow> int \<Rightarrow> event list \<times> (exn + 'a)" where
  "retry_sdk0 too_long func retries delay =
     (case retry_loop_sdk0 too_long func delay (py_range retries) of
        (tr, Inr (Some v)) \<Rightarrow> (tr, Inr v)
      | (tr, Inr None) \<Rightarrow> (tr, Inl (Exception (''All '' @ str_int retries @ '' retries failed.'')))
      | (tr, Inl e) \<Rightarrow> (tr, Inl e))"

text \<open>
  The decoded body of a response: a JSON object (a dict, here an association list of
  its string-valued entries) or any other JSON value (a list, a number, \<^verbatim>\<open>null\<close>),
  kept as the name of its Python type (\<^verbatim>\<open>list\<close>, \<^verbatim>\<open>int\<close>, \<^verbatim>\<open>NoneType\<close>, ...), on
  which \<^verbatim>\<open>data.get\<close> raises \<^verbatim>\<open>AttributeError\<close> with the message
  \<^verbatim>\<open>'list' object has no attribute 'get'\<close>.
\<close>

datatype data = Dict "(string \<times> string) list" | NonDict string

definition no_attribute :: "string \<Rightarrow> string \<Rightarrow> exn" where
  "no_attribute type_name attr =
     AttributeError (quoted type_name @ '' object has no attribute '' @ quoted attr)"

text \<open>\<^verbatim>\<open>d.get(key, default)\<close> on a dict.\<close>

definition dict_get :: "(string \<times> string) list \<Rightarrow> string \<Rightarrow> string \<Rightarrow> string" where
  "dict_get d k dflt = (case map_of d k of None \<Rightarrow> dflt | Some v \<Rightarrow> v)"

text \<open>
  \<^verbatim>\<open>
  def call_process(url):
      endpoint = config.get("API_ENDPOINT")
      if not endpoint:
          raise ValueError("API endpoint is not configured.")
      ...
      def make_request():
          response = requests.post(f"{endpoint}/process", json=payload, headers=headers)
          response.raise_for_status()
          return response.json()
      return retry(make_request)
  \<close>
  \<open>post k u\<close> is what the \<open>k\<close>-th run of \<^verbatim>\<open>make_request\<close> for \<open>u\<close> does: it returns the
  decoded body or raises. Each \<open>Call\<close> in the trace is one transport call.
\<close>

definition call_process ::
  "(int \<Rightarrow> exn option) \<Rightarrow> string option \<Rightarrow> (nat \<Rightarrow> url \<Rightarrow> exn + data) \<Rightarrow> url \<Rightarrow>
   event list \<times> (exn + data)" where
  "call_process too_long endpoint post u =
     (if endpoint = None \<or> endpoint = Some []
      then ([], Inl (ValueError ''API endpoint is not configured.''))
      else retry_sdk0 too_long (\<lambda>k. post k u) 3 2)"

text \<open>
  \<^verbatim>\<open>
  def process_documents(urls):
      results = []
      with ThreadPoolExecutor() as executor:
          futures = [executor.submit(call_process, url) for url in urls]
          for future in futures:
              try:
                  results.append(future.result())
              except Exception as e:
                  logger.error(f"Failed to process document: {e}")
      return results
  \<close>
  \<open>net i\<close> is the transport as the \<open>i\<close>-th submitted task meets it. The futures are
  read in submission order. The function returns the trace of each task and the list
  \<^verbatim>\<open>results\<close>.
\<close>

fun collect_sdk0 :: "(exn + data) list \<Rightarrow> data list \<Rightarrow> data list" where
  "collect_sdk0 [] results = results"
| "collect_sdk0 (Inr d # futures) results = collect_sdk0 futures (results @ [d])"
| "collect_sdk0 (Inl e # futures) results = collect_sdk0 futures results"

definition process_documents_sdk0 ::
  "(int \<Rightarrow> exn option) \<Rightarrow> string option \<Rightarrow> (nat \<Rightarrow> nat \<Rightarrow> url \<Rightarrow> exn + data) \<Rightarrow> url list \<Rightarrow>
   event list list \<times> data list" where
  "process_documents_sdk0 too_long endpoint net urls =
     (let futures = map (\<lambda>(i, u). call_process too_long endpoint (net i) u) (enumerate 0 urls)
      in (map fst futures, collect_sdk0 (map snd futures) []))"

section \<open>The production variants: data model and environment\<close>

text \<open>
  \<^verbatim>\<open>
  @dataclass
  class ProcessingResult:
      url: str
      status: str
      processed_at: datetime
      metadata: Optional[Dict] = None
      error: Optional[str] = None
  \<close>
  A \<^verbatim>\<open>datetime\<close> is a number; the metadata object is kept as an opaque string.
\<close>

record ProcessingResult =
  url :: string
  status :: string
  processed_at :: nat
  metadata :: "string option"
  error :: "string option"

text \<open>
  The environment of one batch. \<open>session_post i k u\<close> is what the \<open>k\<close>-th transport
  call made for the \<open>i\<close>-th submitted item does, that is the three library calls
  \<^verbatim>\<open>session.post(..., json={"url": u})\<close>, \<^verbatim>\<open>response.raise_for_status()\<close>,
  \<^verbatim>\<open>response.json()\<close> that every variant makes in one \<^verbatim>\<open>try\<close> block: it returns the
  decoded body or raises. \<open>datetime_now i\<close> is the clock read when the outcome of item
  \<open>i\<close> is built. \<open>backoff_wait\<close> and \<open>backoff_expired\<close> are the choices of the
  \<^verbatim>\<open>backoff\<close> package that production-sdk.py decorates \<^verbatim>\<open>process_document\<close> with:
  the jittered wait after a failed try (the package keeps it between 0 and what is
  left of \<^verbatim>\<open>max_time\<close>), and whether \<^verbatim>\<open>max_time\<close> has run out by then.
\<close>

record world =
  session_post :: "nat \<Rightarrow> nat \<Rightarrow> url \<Rightarrow> exn + data"
  datetime_now :: "nat \<Rightarrow> nat"
  backoff_wait :: "nat \<Rightarrow> nat"
  backoff_expired :: "nat \<Rightarrow> bool"

text \<open>The two results every variant builds.\<close>

definition succeeded :: "url \<Rightarrow> (string \<times> string) list \<Rightarrow> nat \<Rightarrow> ProcessingResult" where
  "succeeded u d now =
     \<lparr>url = u, status = dict_get d ''status'' ''completed'', processed_at = now,
      metadata = map_of d ''metadata'', error = None\<rparr>"

definition failed :: "url \<Rightarrow> string \<Rightarrow> nat \<Rightarrow> ProcessingResult" where
  "failed u msg now =
     \<lparr>url = u, status = ''failed'', processed_at = now, metadata = None, error = Some msg\<rparr>"

text \<open>
  A future of the thread pool, as the batch loop sees it: the index of its submission,
  the URL that \<^verbatim>\<open>future_to_url\<close> maps it to, the trace of its run, and what
  \<^verbatim>\<open>future.result()\<close> returns or raises.
\<close>

type_synonym future = "nat \<times> url \<times> event list \<times> (exn + ProcessingResult)"

text \<open>
  \<^verbatim>\<open>{executor.submit(self.process_document, url): url for url in urls}\<close> submits one
  task per element of \<open>urls\<close>; \<open>task i u\<close> is the run of the \<open>i\<close>-th task.
  \<^verbatim>\<open>as_completed(future_to_url)\<close> yields every future once, in the order in which the
  worker threads finish. That order is the scheduler's choice: \<open>order\<close> lists the
  submission indices in completion order, and it is a completion order for \<open>n\<close>
  futures when it is a permutation of \<open>0, ..., n - 1\<close>.
\<close>

definition submit ::
  "(nat \<Rightarrow> url \<Rightarrow> event list \<times> (exn + ProcessingResult)) \<Rightarrow> url list \<Rightarrow> future list" where
  "submit task urls = map (\<lambda>(i, u). (i, u, task i u)) (enumerate 0 urls)"

definition as_completed :: "future list \<Rightarrow> nat list \<Rightarrow> future list" where
  "as_completed futures order = map (\<lambda>k. futures ! k) order"

definition completion_order :: "nat \<Rightarrow> nat list \<Rightarrow> bool" where
  "completion_order n order = (sort order = [0..<n])"

text \<open>
  The variables of the batch loop (\<^verbatim>\<open>results\<close>, \<^verbatim>\<open>completed\<close>) and the progress
  reports it has emitted: \<open>notified\<close> holds the calls \<^verbatim>\<open>progress_callback(completed,
  total)\<close>, \<open>logged\<close> the log lines \<^verbatim>\<open>Progress: {completed}/{total} documents
  processed\<close>.
\<close>

record batch_state =
  results :: "ProcessingResult list"
  completed :: nat
  notified :: "(nat \<times> nat) list"
  logged :: "(nat \<times> nat) list"

definition initial_state :: batch_state where
  "initial_state = \<lparr>results = [], completed = 0, notified = [], logged = []\<rparr>"

text \<open>
  What a call of \<^verbatim>\<open>process_batch\<close> does: what it returns or raises, the traces of the
  submitted tasks (in submission order), and the progress reports.
\<close>

record batch_run =
  returned :: "exn + ProcessingResult list"
  traces :: "event list list"
  callbacks :: "(nat \<times> nat) list"
  progress_log :: "(nat \<times> nat) list"

definition raised_before_work :: "exn \<Rightarrow> batch_run" where
  "raised_before_work e = \<lparr>returned = Inl e, traces = [], callbacks = [], progress_log = []\<rparr>"

definition finish :: "event list list \<Rightarrow> exn option \<times> batch_state \<Rightarrow> batch_run" where
  "finish trs out =
     (case out of
        (None, s) \<Rightarrow>
          \<lparr>returned = Inr (results s), traces = trs, callbacks = notified s, progress_log = logged s\<rparr>
      | (Some e, s) \<Rightarrow>
          \<lparr>returned = Inl e, traces = trs, callbacks = notified s, progress_log = logged s\<rparr>)"

text \<open>
  \<^verbatim>\<open>ThreadPoolExecutor(max_workers=max_workers)\<close> raises \<^verbatim>\<open>ValueError\<close> when
  \<open>max_workers \<le> 0\<close>. On leaving the \<^verbatim>\<open>with\<close> block the pool waits for every submitted
  task, also when the loop was left by an exception: all traces are complete.
\<close>

definition ThreadPoolExecutor :: "int \<Rightarrow> exn option" where
  "ThreadPoolExecutor max_workers =
     (if max_workers \<le> 0 then Some (ValueError ''max_workers must be greater than 0'') else None)"

fun future_trace :: "future \<Rightarrow> event list" where
  "future_trace (i, u, tr, r) = tr"

section \<open>production-sdk.py\<close>

text \<open>
  \<^verbatim>\<open>
  def process_document(self, url):
      try:
          response = self.session.post(f"{...}/process", json={"url": url})
          response.raise_for_status()
          data = response.json()
          return ProcessingResult(url=url, status=data.get('status', 'completed'),
                                  processed_at=datetime.now(), metadata=data.get('metadata'))
      except requests.exceptions.RequestException as e:
          logger.error(...)
          return ProcessingResult(url=url, status='failed', processed_at=datetime.now(),
                                  error=str(e))
  \<close>
\<close>

definition process_document_body_v0 ::
  "(url \<Rightarrow> exn + data) \<Rightarrow> nat \<Rightarrow> url \<Rightarrow> event list \<times> (exn + ProcessingResult)" where
  "process_document_body_v0 post now u =
     ([Post u],
      case post u of
        Inr (Dict d) \<Rightarrow> Inr (succeeded u d now)
      | Inr (NonDict ty) \<Rightarrow> Inl (no_attribute ty ''get'')
      | Inl (RequestException k m) \<Rightarrow> Inr (failed u m now)
      | Inl e \<Rightarrow> Inl e)"

text \<open>
  The decorator
  \<^verbatim>\<open>@backoff.on_exception(backoff.expo, (RequestException, APIError), max_tries=3, max_time=30)\<close>
  of the \<^verbatim>\<open>backoff\<close> package (a library, not code of the repository): it calls the
  function; when the call raises one of the listed exceptions it gives up and re-raises
  if this was try number \<open>max_tries\<close> or \<open>max_time\<close> has run out, and otherwise sleeps
  and calls again; any other exception passes through. \<open>tries\<close> counts the tries made
  before this one.
\<close>

function on_exception ::
  "(exn \<Rightarrow> bool) \<Rightarrow> nat \<Rightarrow> (nat \<Rightarrow> bool) \<Rightarrow> (nat \<Rightarrow> nat) \<Rightarrow>
   (nat \<Rightarrow> event list \<times> (exn + 'a)) \<Rightarrow> nat \<Rightarrow> event list \<times> (exn + 'a)" where
  "on_exception listed max_tries expired wait target tries =
     (case target tries of
        (tr, Inr v) \<Rightarrow> (tr, Inr v)
      | (tr, Inl e) \<Rightarrow>
          if listed e \<and> Suc tries < max_tries \<and> \<not> expired tries
          then (case on_exception listed max_tries expired wait target (Suc tries) of
                  (tr', r) \<Rightarrow> (tr @ Sleep (int (wait tries)) # tr', r))
          else (tr, Inl e))"
  by pat_completeness auto
termination
  by (relation "measure (\<lambda>(listed, max_tries, expired, wait, target, tries). max_tries - tries)") auto

fun retried_v0 :: "exn \<Rightarrow> bool" where
  "retried_v0 (RequestException k m) = True"
| "retried_v0 (APIError m c) = True"
| "retried_v0 e = False"

definition process_document_v0 :: "world \<Rightarrow> nat \<Rightarrow> url \<Rightarrow> event list \<times> (exn + ProcessingResult)" where
  "process_document_v0 w i u =
     on_exception retried_v0 3 (backoff_expired w) (backoff_wait w)
       (\<lambda>k. process_document_body_v0 (session_post w i k) (datetime_now w i) u) 0"

text \<open>
  \<^verbatim>\<open>
  def process_batch(self, urls, max_workers=5, progress_callback=None):
      results = []
      total = len(urls)
      completed = 0
      with ThreadPoolExecutor(max_workers=max_workers) as executor:
          future_to_url = {executor.submit(self.process_document, url): url for url in urls}
          for future in as_completed(future_to_url):
              result = future.result()
              results.append(result)
              completed += 1
              if progress_callback:
                  progress_callback(completed, total)
              else:
                  logger.info(f"Progress: {completed}/{total} documents processed")
      return results
  \<close>
  The loop returns the state it stopped in and the exception that stopped it, if any.
  \<open>callback\<close> says whether a progress observer is attached; the observer is the
  caller's function and is taken to return.
\<close>

fun batch_loop_v0 :: "bool \<Rightarrow> nat \<Rightarrow> future list \<Rightarrow> batch_state \<Rightarrow> exn option \<times> batch_state" where
  "batch_loop_v0 callback tot [] s = (None, s)"
| "batch_loop_v0 callback tot ((i, u, tr, r) # futures) s =
     (case r of
        Inl e \<Rightarrow> (Some e, s)
      | Inr result \<Rightarrow>
          batch_loop_v0 callback tot futures
            (s\<lparr>results := results s @ [result],
               completed := Suc (completed s),
               notified := (if callback then notified s @ [(Suc (completed s), tot)] else notified s),
               logged := (if callback then logged s else logged s @ [(Suc (completed s), tot)])\<rparr>))"

definition process_batch_v0 :: "world \<Rightarrow> url list \<Rightarrow> int \<Rightarrow> bool \<Rightarrow> nat list \<Rightarrow> batch_run" where
  "process_batch_v0 w urls max_workers callback order =
     (case ThreadPoolExecutor max_workers of
        Some e \<Rightarrow> raised_before_work e
      | None \<Rightarrow>
          (let futures = submit (process_document_v0 w) urls
           in finish (map future_trace futures)
                (batch_loop_v0 callback (length urls) (as_completed futures order) initial_state)))"

section \<open>production-sdk (1).py\<close>

text \<open>
  \<^verbatim>\<open>
  def process_document(self, url):
      try:
          ... (the same calls as in production-sdk.py)
      except requests.exceptions.RequestException as e:
          logger.error(...)
          raise APIError(f"Failed to process document: {str(e)}")
  \<close>
\<close>

definition process_document_v1 ::
  "(url \<Rightarrow> exn + data) \<Rightarrow> nat \<Rightarrow> url \<Rightarrow> event list \<times> (exn + ProcessingResult)" where
  "process_document_v1 post now u =
     ([Post u],
      case post u of
        Inr (Dict d) \<Rightarrow> Inr (succeeded u d now)
      | Inr (NonDict ty) \<Rightarrow> Inl (no_attribute ty ''get'')
      | Inl (RequestException k m) \<Rightarrow> Inl (APIError (''Failed to process document: '' @ m) None)
      | Inl e \<Rightarrow> Inl e)"

text \<open>
  \<^verbatim>\<open>
          for future in as_completed(future_to_url):
              try:
                  result = future.result()
                  results.append(result)
                  completed += 1
                  logger.info(f"Progress: {completed}/{total} documents processed")
              except APIError as e:
                  url = future_to_url[future]
                  logger.error(...)
                  results.append(ProcessingResult(url=url, status='failed',
                                                  processed_at=datetime.now(), error=str(e)))
      return results
  \<close>
\<close>

fun batch_loop_v1 :: "world \<Rightarrow> nat \<Rightarrow> future list \<Rightarrow> batch_state \<Rightarrow> exn option \<times> batch_state" where
  "batch_loop_v1 w tot [] s = (None, s)"
| "batch_loop_v1 w tot ((i, u, tr, r) # futures) s =
     (case r of
        Inr result \<Rightarrow>
          batch_loop_v1 w tot futures
            (s\<lparr>results := results s @ [result],
               completed := Suc (completed s),
               logged := logged s @ [(Suc (completed s), tot)]\<rparr>)
      | Inl (APIError m c) \<Rightarrow>
          batch_loop_v1 w tot futures
            (s\<lparr>results := results s @ [failed u (str_exn (APIError m c)) (datetime_now w i)]\<rparr>)
      | Inl e \<Rightarrow> (Some e, s))"

definition process_batch_v1 :: "world \<Rightarrow> url list \<Rightarrow> int \<Rightarrow> nat list \<Rightarrow> batch_run" where
  "process_batch_v1 w urls max_workers order =
     (case ThreadPoolExecutor max_workers of
        Some e \<Rightarrow> raised_before_work e
      | None \<Rightarrow>
          (let futures =
                 submit (\<lambda>i. process_document_v1 (session_post w i 0) (datetime_now w i)) urls
           in finish (map future_trace futures)
                (batch_loop_v1 w (length urls) (as_completed futures order) initial_state)))"

section \<open>production-sdk (2).py\<close>

text \<open>
  \<^verbatim>\<open>
  class APIClient:
      def post(self, endpoint, data):
          try:
              url = f"{self.config.get('API_ENDPOINT')}{endpoint}"
              response = self.session.post(url, json=data)
              response.raise_for_status()
              return response.json()
          except requests.exceptions.RequestException as e:
              raise APIError(f"API request failed: {str(e)}", e)

  class DocumentProcessor:
      def process_document(self, url):
          try:
              data = self.api_client.post("/process", {"url": url})
              return ProcessingResult(url=url, status=data.get('status', 'completed'),
                                      processed_at=datetime.now(), metadata=data.get('metadata'))
          except APIError as e:
              logger.error(...)
              raise
  \<close>
\<close>

definition APIClient_post :: "(url \<Rightarrow> exn + data) \<Rightarrow> url \<Rightarrow> event list \<times> (exn + data)" where
  "APIClient_post post u =
     ([Post u],
      case post u of
        Inr d \<Rightarrow> Inr d
      | Inl (RequestException k m) \<Rightarrow>
          Inl (APIError (''API request failed: '' @ m) (Some (RequestException k m)))
      | Inl e \<Rightarrow> Inl e)"

definition process_document_v2 ::
  "(url \<Rightarrow> exn + data) \<Rightarrow> nat \<Rightarrow> url \<Rightarrow> event list \<times> (exn + ProcessingResult)" where
  "process_document_v2 post now u =
     (case APIClient_post post u of
        (tr, Inr (Dict d)) \<Rightarrow> (tr, Inr (succeeded u d now))
      | (tr, Inr (NonDict ty)) \<Rightarrow> (tr, Inl (no_attribute ty ''get''))
      | (tr, Inl e) \<Rightarrow> (tr, Inl e))"

text \<open>
  \<^verbatim>\<open>
  def process_batch(self, urls, max_workers=5):
      if not urls:
          raise ValidationError("No URLs provided for processing")
      results = []
      total = len(urls)
      completed = 0
      with ThreadPoolExecutor(max_workers=max_workers) as executor:
          future_to_url = {executor.submit(self.process_document, url): url for url in urls}
          for future in as_completed(future_to_url):
              url = future_to_url[future]
              try:
                  result = future.result()
                  results.append(result)
              except Exception as e:
                  results.append(ProcessingResult(url=url, status='failed',
                                                  processed_at=datetime.now(), error=str(e)))
              completed += 1
              logger.info(f"Progress: {completed}/{total} documents processed")
      return results
  \<close>
\<close>

fun batch_loop_v2 :: "world \<Rightarrow> nat \<Rightarrow> future list \<Rightarrow> batch_state \<Rightarrow> exn option \<times> batch_state" where
  "batch_loop_v2 w tot [] s = (None, s)"
| "batch_loop_v2 w tot ((i, u, tr, r) # futures) s =
     batch_loop_v2 w tot futures
       (s\<lparr>results :=
            (case r of
               Inr result \<Rightarrow> results s @ [result]
             | Inl e \<Rightarrow> results s @ [failed u (str_exn e) (datetime_now w i)]),
          completed := Suc (completed s),
          logged := logged s @ [(Suc (completed s), tot)]\<rparr>)"

definition process_batch_v2 :: "world \<Rightarrow> url list \<Rightarrow> int \<Rightarrow> nat list \<Rightarrow> batch_run" where
  "process_batch_v2 w urls max_workers order =
     (if urls = [] then raised_before_work (ValidationError ''No URLs provided for processing'')
      else
        (case ThreadPoolExecutor max_workers of
           Some e \<Rightarrow> raised_before_work e
         | None \<Rightarrow>
             (let futures =
                    submit (\<lambda>i. process_document_v2 (session_post w i 0) (datetime_now w i)) urls
              in finish (map future_trace futures)
                   (batch_loop_v2 w (length urls) (as_completed futures order) initial_state))))"

section \<open>The schedulers\<close>

text \<open>
  The crontab of the user is a list of jobs; \<^verbatim>\<open>CronTab(user=True)\<close> of the
  \<^verbatim>\<open>python-crontab\<close> package reads it, \<^verbatim>\<open>cron.find_comment(c)\<close> yields the jobs
  whose comment is \<open>c\<close>, \<^verbatim>\<open>cron.remove(job)\<close> deletes a job, \<^verbatim>\<open>cron.new(command,
  comment)\<close> appends a job that runs every minute until \<^verbatim>\<open>job.setall(schedule)\<close>
  sets its schedule, and \<^verbatim>\<open>cron.write()\<close> stores the list as the user's crontab.
  What the package decides is a parameter: \<open>job_setall schedule\<close> is the exception
  raised for a schedule it cannot parse, or else the schedule as the package renders
  and stores it (it writes \<^verbatim>\<open>*/1 * * * *\<close> as \<^verbatim>\<open>* * * * *\<close>); \<open>cron_write crons\<close>
  is the exception raised when the crontab cannot be stored.
\<close>

record cron_job =
  job_command :: string
  job_comment :: string
  job_schedule :: string

record crontab_package =
  job_setall :: "string \<Rightarrow> exn + string"
  cron_write :: "cron_job list \<Rightarrow> exn option"

definition find_comment :: "cron_job list \<Rightarrow> string \<Rightarrow> cron_job list" where
  "find_comment crons c = filter (\<lambda>job. job_comment job = c) crons"

definition remove_jobs :: "cron_job list \<Rightarrow> cron_job list \<Rightarrow> cron_job list" where
  "remove_jobs existing_jobs crons = fold remove1 existing_jobs crons"

definition new_job :: "string \<Rightarrow> string \<Rightarrow> cron_job" where
  "new_job cmd c = \<lparr>job_command = cmd, job_comment = c, job_schedule = ''* * * * *''\<rparr>"

text \<open>
  production-sdk (2).py (production-sdk.py is the same but for the exception class):
  \<^verbatim>\<open>
  def schedule_job(self, schedule="0 18 * * *", comment="Document Processing Job"):
      try:
          existing_jobs = list(self.cron.find_comment(comment))
          if existing_jobs:
              for job in existing_jobs:
                  self.cron.remove(job)
          job = self.cron.new(command=f"python {self.script_path}", comment=comment)
          job.setall(schedule)
          self.cron.write()
          return job
      except Exception as e:
          raise SchedulingError(f"Failed to schedule job: {str(e)}", e)
  \<close>
  \<open>crons\<close> is the job list of \<^verbatim>\<open>self.cron\<close>, \<open>stored\<close> the crontab of the user. The
  function returns the job or the exception, the new \<^verbatim>\<open>self.cron\<close> and the new
  stored crontab.
\<close>

definition schedule_job_steps ::
  "crontab_package \<Rightarrow> string \<Rightarrow> string \<Rightarrow> string \<Rightarrow> cron_job list \<Rightarrow> cron_job list \<Rightarrow>
   (exn + cron_job) \<times> cron_job list \<times> cron_job list" where
  "schedule_job_steps pkg script_path schedule c crons stored =
     (let existing_jobs = find_comment crons c;
          crons1 = remove_jobs existing_jobs crons;
          job = new_job (''python '' @ script_path) c
      in case job_setall pkg schedule of
           Inl e \<Rightarrow> (Inl e, crons1 @ [job], stored)
         | Inr rendered \<Rightarrow>
             (let job' = job\<lparr>job_schedule := rendered\<rparr>; crons2 = crons1 @ [job']
              in case cron_write pkg crons2 of
                   Some e \<Rightarrow> (Inl e, crons2, stored)
                 | None \<Rightarrow> (Inr job', crons2, crons2)))"

definition schedule_job_v2 ::
  "crontab_package \<Rightarrow> string \<Rightarrow> string \<Rightarrow> string \<Rightarrow> cron_job list \<Rightarrow> cron_job list \<Rightarrow>
   (exn + cron_job) \<times> cron_job list \<times> cron_job list" where
  "schedule_job_v2 pkg script_path schedule c crons stored =
     (case schedule_job_steps pkg script_path schedule c crons stored of
        (Inl e, crons', stored') \<Rightarrow>
          (Inl (SchedulingError (''Failed to schedule job: '' @ str_exn e) (Some e)), crons', stored')
      | (Inr job, crons', stored') \<Rightarrow> (Inr job, crons', stored'))"

definition schedule_job_v0 ::
  "crontab_package \<Rightarrow> string \<Rightarrow> string \<Rightarrow> string \<Rightarrow> cron_job list \<Rightarrow> cron_job list \<Rightarrow>
   (exn + cron_job) \<times> cron_job list \<times> cron_job list" where
  "schedule_job_v0 pkg script_path schedule c crons stored =
     (case schedule_job_steps pkg script_path schedule c crons stored of
        (Inl e, crons', stored') \<Rightarrow>
          (Inl (SDKException (''Failed to schedule job: '' @ str_exn e)), crons', stored')
      | (Inr job, crons', stored') \<Rightarrow> (Inr job, crons', stored'))"

text \<open>
  \<^verbatim>\<open>DocumentProcessingSDK.schedule_processing\<close> builds a scheduler, whose
  \<^verbatim>\<open>self.cron = CronTab(user=True)\<close> is the stored crontab, and calls
  \<^verbatim>\<open>schedule_job\<close>. It returns the job or the exception and the new stored crontab.
\<close>

definition schedule_processing_v2 ::
  "crontab_package \<Rightarrow> string \<Rightarrow> string \<Rightarrow> string \<Rightarrow> cron_job list \<Rightarrow> (exn + cron_job) \<times> cron_job list" where
  "schedule_processing_v2 pkg script_path schedule c stored =
     (case schedule_job_v2 pkg script_path schedule c stored stored of
        (r, crons', stored') \<Rightarrow> (r, stored'))"

definition schedule_processing_v0 ::
  "crontab_package \<Rightarrow> string \<Rightarrow> string \<Rightarrow> string \<Rightarrow> cron_job list \<Rightarrow> (exn + cron_job) \<times> cron_job list" where
  "schedule_processing_v0 pkg script_path schedule c stored =
     (case schedule_job_v0 pkg script_path schedule c stored stored of
        (r, crons', stored') \<Rightarrow> (r, stored'))"

text \<open>
  sdk_0.py:
  \<^verbatim>\<open>
  def create_cron_job(script_path, schedule="0 18 * * *"):
      cron = CronTab(user=True)
      job = cron.new(command=f"python {script_path}", comment="Process Documents Cron Job")
      job.setall(schedule)
      cron.write()
      logger.info(f"Cron job created: {job}")
  \<close>
  It returns the exception raised, if any, and the new stored crontab.
\<close>

definition create_cron_job ::
  "crontab_package \<Rightarrow> string \<Rightarrow> string \<Rightarrow> cron_job list \<Rightarrow> exn option \<times> cron_job list" where
  "create_cron_job pkg script_path schedule stored =
     (let job = new_job (''python '' @ script_path) ''Process Documents Cron Job''
      in case job_setall pkg schedule of
           Inl e \<Rightarrow> (Some e, stored)
         | Inr rendered \<Rightarrow>
             (let crons = stored @ [job\<lparr>job_schedule := rendered\<rparr>]
              in case cron_write pkg crons of
                   Some e \<Rightarrow> (Some e, stored)
                 | None \<Rightarrow> (None, crons)))"

text \<open>The number of stored jobs that carry a label.\<close>

definition labelled :: "string \<Rightarrow> cron_job list \<Rightarrow> nat" where
  "labelled c crons = length (find_comment crons c)"

section \<open>forge/auth.py: Authenticator.authenticate\<close>

text \<open>
  \<^verbatim>\<open>
  import json
  from feedback_forge_sdk.exceptions import AuthenticationError

  class Authenticator:
      def __init__(self, config):
          self.config = config

      def authenticate(self):
          try:
              json_key_path = self.config.get("GCP_JSON_KEY_PATH")
              if not json_key_path or not os.path.exists(json_key_path):
                  raise AuthenticationError(f"GCP JSON key file not found: {json_key_path}")

              with open(json_key_path, 'r') as f:
                  return json.load(f)
          except AuthenticationError:
              raise
          except Exception as e:
              raise AuthenticationError("Authentication failed", e)
  \<close>
  The names the module binds are those of its two imports and of its class. Reading a
  global name that the module does not bind raises \<^verbatim>\<open>NameError\<close>. The configuration
  is a map from keys to strings; the file system is given by \<open>path_exists\<close> (what
  \<^verbatim>\<open>os.path.exists\<close> would answer) and \<open>load\<close> (what \<^verbatim>\<open>open\<close> and \<^verbatim>\<open>json.load\<close>
  return or raise).
\<close>

definition auth_globals :: "string list" where
  "auth_globals = [''json'', ''AuthenticationError'', ''Authenticator'']"

definition global_name :: "string list \<Rightarrow> string \<Rightarrow> exn option" where
  "global_name globals n = (if n \<in> set globals then None else Some (NameError n))"

definition not_found :: "string option \<Rightarrow> exn" where
  "not_found json_key_path =
     AuthenticationError
       (''GCP JSON key file not found: '' @ (case json_key_path of None \<Rightarrow> ''None'' | Some p \<Rightarrow> p))
       None"

definition authenticate_body ::
  "(string \<Rightarrow> string option) \<Rightarrow> (string \<Rightarrow> bool) \<Rightarrow> (string \<Rightarrow> exn + data) \<Rightarrow> exn + data" where
  "authenticate_body config path_exists load =
     (let json_key_path = config ''GCP_JSON_KEY_PATH''
      in case json_key_path of
           None \<Rightarrow> Inl (not_found json_key_path)
         | Some p \<Rightarrow>
             if p = [] then Inl (not_found json_key_path)
             else (case global_name auth_globals ''os'' of
                     Some e \<Rightarrow> Inl e
                   | None \<Rightarrow>
                       if \<not> path_exists p then Inl (not_found json_key_path)
                       else load p))"

definition authenticate ::
  "(string \<Rightarrow> string option) \<Rightarrow> (string \<Rightarrow> bool) \<Rightarrow> (string \<Rightarrow> exn + data) \<Rightarrow> exn + data" where
  "authenticate config path_exists load =
     (case authenticate_body config path_exists load of
        Inl (AuthenticationError m c) \<Rightarrow> Inl (AuthenticationError m c)
      | Inl e \<Rightarrow> Inl (AuthenticationError ''Authentication failed'' (Some e))
      | Inr credentials \<Rightarrow> Inr credentials)"

section \<open>Notions used in the statements\<close>

text \<open>
  The outcome the batch loop of production-sdk (1).py and production-sdk (2).py records
  for a future: the result of the task, or the failed result built in the handler.
\<close>

fun outcome :: "world \<Rightarrow> future \<Rightarrow> ProcessingResult" where
  "outcome w (i, u, tr, r) =
     (case r of Inr result \<Rightarrow> result | Inl e \<Rightarrow> failed u (str_exn e) (datetime_now w i))"

text \<open>A future whose task raised, and a future that \<^verbatim>\<open>except APIError\<close> lets through.\<close>

fun raised :: "future \<Rightarrow> bool" where
  "raised (i, u, tr, r) = isl r"

fun handled_v1 :: "future \<Rightarrow> bool" where
  "handled_v1 (i, u, tr, Inr result) = True"
| "handled_v1 (i, u, tr, Inl (APIError m c)) = True"
| "handled_v1 (i, u, tr, Inl e) = False"

text \<open>The progress reports \<open>(c + 1, tot), ..., (c + n, tot)\<close>.\<close>

definition progress_reports :: "nat \<Rightarrow> nat \<Rightarrow> nat \<Rightarrow> (nat \<times> nat) list" where
  "progress_reports c n tot = map (\<lambda>k. (k, tot)) [Suc c..<Suc (c + n)]"

text \<open>
  The classification of the specification (section 4.3), in its words: a transport
  failure is not retryable when it is an HTTP status of the 4xx class or a decode
  failure. No function of the repository computes it.
\<close>

fun non_retryable :: "failure \<Rightarrow> bool" where
  "non_retryable (HTTPStatus code) = (400 \<le> code \<and> code < 500)"
| "non_retryable DecodeFailure = True"
| "non_retryable NetworkFailure = False"

text \<open>A trace with exactly one call and no sleep: a call that was not retried.\<close>

definition made_once :: "event list \<Rightarrow> bool" where
  "made_once tr = (length (filter (\<lambda>e. is_Call e \<or> is_Post e) tr) = 1 \<and> filter is_Sleep tr = [])"

section \<open>Properties of forge/utils.py retry\<close>

text \<open>
  Claim C10. For every function, delay and \<open>retries \<le> 0\<close>, \<open>retry\<close> of forge/utils.py
  returns \<^verbatim>\<open>None\<close> without calling the function (the trace is empty: no call, no
  sleep) and without raising.
\<close>

theorem retry_nonpositive_returns_None:
  "retries \<le> 0 \<Longrightarrow> retry too_long func retries delay = ([], Inr None)"
  by (simp add: retry_def py_range_def)

theorem retry_nonpositive_returns_None_witness:
  "(0::int) \<le> 0 \<and> retry cpython_too_long (\<lambda>k. Inr ''Success'') 0 2 = ([], Inr None)
   \<and> (-1::int) \<le> 0
   \<and> retry cpython_too_long (\<lambda>k. Inl (ValueError ''Failure'') :: exn + string) (-1) 2 = ([], Inr None)"
  using retry_nonpositive_returns_None [of 0 cpython_too_long "\<lambda>k. Inr ''Success''" 2]
    retry_nonpositive_returns_None [of "-1" cpython_too_long
      "\<lambda>k. Inl (ValueError ''Failure'') :: exn + string" 2]
  by simp

text \<open>
  A call that fails on every attempt is made \<open>retries\<close> times, with a sleep of
  \<open>delay * 2 ^ k\<close> after failed attempt \<open>k\<close> except the last, and the last error is
  raised, provided \<^verbatim>\<open>sleep\<close> accepts these lengths. When it does not accept the first
  one (a negative delay, say), the function is called once and the exception of
  \<^verbatim>\<open>sleep\<close> is raised.
\<close>

lemma sleeps_acceptedD:
  "sleeps_accepted too_long delay n \<Longrightarrow> j < n \<Longrightarrow> sleep too_long (delay * 2 ^ j) = None"
  by (simp add: sleeps_accepted_def list_all_iff)

lemma sleeps_accepted_in_range:
  assumes "0 \<le> delay" and "\<And>secs. 0 \<le> secs \<Longrightarrow> secs \<le> delay * 2 ^ n \<Longrightarrow> too_long secs = None"
  shows "sleeps_accepted too_long delay (Suc n)"
proof -
  have "sleep too_long (delay * 2 ^ j) = None" if "j \<le> n" for j
  proof -
    have "(2::int) ^ j \<le> 2 ^ n" using that by (simp add: power_increasing)
    then have "delay * 2 ^ j \<le> delay * 2 ^ n" using assms(1) by (rule mult_left_mono)
    moreover have "0 \<le> delay * 2 ^ j" using assms(1) by simp
    ultimately show ?thesis using assms(2) by (simp add: sleep_def)
  qed
  then show ?thesis by (simp add: sleeps_accepted_def list_all_iff)
qed

lemma retry_loop_all_fail:
  "(\<And>j. func j = Inl (err j)) \<Longrightarrow>
   (\<And>j. j < k + n \<Longrightarrow> sleep too_long (delay * 2 ^ j) = None) \<Longrightarrow>
   retry_loop too_long func (int (k + Suc n)) delay [k..<k + Suc n] =
     (backoff_trace delay k (Suc n), Inl (err (k + n)))"
proof (induction n arbitrary: k)
  case 0
  have "func k = Inl (err k)" by (rule 0)
  then show ?case by simp
next
  case (Suc n)
  have upt: "[k..<k + Suc (Suc n)] = k # [Suc k..<Suc k + Suc n]"
    by (simp add: upt_conv_Cons)
  have sl: "sleep too_long (delay * 2 ^ j) = None" if "j < Suc k + n" for j
    using that Suc.prems(2) [of j] by simp
  have ih: "retry_loop too_long func (int (Suc k + Suc n)) delay [Suc k..<Suc k + Suc n] =
     (backoff_trace delay (Suc k) (Suc n), Inl (err (Suc k + n)))"
    using Suc.IH [of "Suc k"] Suc.prems(1) sl by blast
  have eq: "int (k + Suc (Suc n)) = int (Suc k + Suc n)" by simp
  have fk: "func k = Inl (err k)" by (rule Suc.prems)
  have sk: "sleep too_long (delay * 2 ^ k) = None" by (rule sl) simp
  show ?case
    unfolding upt eq using ih by (simp add: fk sk del: upt_Suc)
qed

lemma retry_all_fail:
  assumes "0 < retries" and "\<And>j. func j = Inl (err j)"
    and "sleeps_accepted too_long delay (nat retries - 1)"
  shows "retry too_long func retries delay =
     (backoff_trace delay 0 (nat retries), Inl (err (nat retries - 1)))"
proof -
  obtain n where n: "nat retries = Suc n" using assms(1) by (cases "nat retries") auto
  then have r: "retries = int (0 + Suc n)" using assms(1) by linarith
  have sl: "sleep too_long (delay * 2 ^ j) = None" if "j < 0 + n" for j
    using sleeps_acceptedD [OF assms(3), of j] that n by simp
  show ?thesis
    unfolding retry_def py_range_def n
    using retry_loop_all_fail [of func err 0 n too_long delay, OF assms(2) sl] r by simp
qed

lemma retry_sleep_rejected:
  assumes "1 < retries" and "func 0 = Inl e" and "sleep too_long delay = Some e'"
  shows "retry too_long func retries delay = ([Call 0], Inl e')"
proof -
  obtain n where n: "nat retries = Suc n" using assms(1) by (cases "nat retries") auto
  have upt: "[0..<Suc n] = 0 # [Suc 0..<Suc n]" by (simp add: upt_conv_Cons)
  show ?thesis
    unfolding retry_def py_range_def n upt using assms by simp
qed

lemma calls_backoff_trace:
  "filter is_Call (backoff_trace delay k n) = map Call [k..<k + n]"
  by (induction delay k n rule: backoff_trace.induct) (simp_all add: upt_conv_Cons)

lemma sleeps_backoff_trace:
  "filter is_Sleep (backoff_trace delay k n) = map (\<lambda>j. Sleep (delay * 2 ^ j)) [k..<k + n - 1]"
  by (induction delay k n rule: backoff_trace.induct) (simp_all add: upt_conv_Cons)

lemma posts_backoff_trace: "filter is_Post (backoff_trace delay k n) = []"
  by (induction delay k n rule: backoff_trace.induct) simp_all

section \<open>Properties of sdk_0.py retry\<close>

text \<open>
  The retry of sdk_0.py sleeps after every failed attempt, the last one included, and
  then raises a new exception (provided \<^verbatim>\<open>time.sleep\<close> accepts the lengths).
\<close>

lemma retry_loop_sdk0_all_fail:
  "(\<And>j. func j = Inl (err j)) \<Longrightarrow>
   (\<And>j. j < k + n \<Longrightarrow> sleep too_long (delay * 2 ^ j) = None) \<Longrightarrow>
   retry_loop_sdk0 too_long func delay [k..<k + n] =
     (concat (map (\<lambda>j. [Call j, Sleep (delay * 2 ^ j)]) [k..<k + n]), Inr None)"
proof (induction n arbitrary: k)
  case 0
  then show ?case by simp
next
  case (Suc n)
  have upt: "[k..<k + Suc n] = k # [Suc k..<Suc k + n]"
    by (simp add: upt_conv_Cons)
  have fk: "func k = Inl (err k)" by (rule Suc.prems)
  have sl: "sleep too_long (delay * 2 ^ j) = None" if "j < Suc k + n" for j
    using that Suc.prems(2) [of j] by simp
  have sk: "sleep too_long (delay * 2 ^ k) = None" by (rule Suc.prems(2)) simp
  have ih: "retry_loop_sdk0 too_long func delay [Suc k..<Suc k + n] =
     (concat (map (\<lambda>j. [Call j, Sleep (delay * 2 ^ j)]) [Suc k..<Suc k + n]), Inr None)"
    using Suc.IH [of "Suc k"] Suc.prems(1) sl by blast
  show ?case unfolding upt using ih by (simp add: fk sk del: upt_Suc)
qed

lemma retry_sdk0_all_fail:
  assumes "\<And>j. func j = Inl (err j)" and "sleeps_accepted too_long delay (nat retries)"
  shows "retry_sdk0 too_long func retries delay =
     (concat (map (\<lambda>j. [Call j, Sleep (delay * 2 ^ j)]) [0..<nat retries]),
      Inl (Exception (''All '' @ str_int retries @ '' retries failed.'')))"
proof -
  have sl: "sleep too_long (delay * 2 ^ j) = None" if "j < 0 + nat retries" for j
    using sleeps_acceptedD [OF assms(2), of j] that by simp
  show ?thesis
    using retry_loop_sdk0_all_fail [of func err 0 "nat retries" too_long delay, OF assms(1) sl]
    by (simp add: retry_sdk0_def py_range_def)
qed

section \<open>The batch loops\<close>

lemma upt_progress_Cons:
  "[Suc c..<Suc (Suc (c + n))] = Suc c # [Suc (Suc c)..<Suc (Suc (c + n))]"
  by (subst upt_conv_Cons) (simp_all del: upt_Suc)

lemma progress_reports_Suc:
  "progress_reports c (Suc n) tot = (Suc c, tot) # progress_reports (Suc c) n tot"
  by (simp add: progress_reports_def upt_progress_Cons del: upt_Suc)

lemma progress_reports_0: "progress_reports c 0 tot = []"
  by (simp add: progress_reports_def)

lemma length_progress_reports: "length (progress_reports c n tot) = n"
  by (simp add: progress_reports_def)

text \<open>
  production-sdk.py: the loop runs to its end exactly when no task raised, and then
  every future has its result recorded and its progress report sent.
\<close>

lemma batch_loop_v0_run:
  "\<not> list_ex raised fs \<Longrightarrow>
   batch_loop_v0 cb tot fs s =
     (None, s\<lparr>results := results s @ map (outcome w) fs,
              completed := completed s + length fs,
              notified := (if cb then notified s @ progress_reports (completed s) (length fs) tot
                           else notified s),
              logged := (if cb then logged s
                         else logged s @ progress_reports (completed s) (length fs) tot)\<rparr>)"
proof (induction fs arbitrary: s)
  case Nil
  then show ?case by (simp add: progress_reports_0)
next
  case (Cons f fs)
  obtain i u tr r where f: "f = (i, u, tr, r)" by (cases f) auto
  from Cons.prems obtain result where r: "r = Inr result" and rest: "\<not> list_ex raised fs"
    unfolding f by (cases r) auto
  show ?case
    unfolding f r by (simp add: Cons.IH [OF rest] progress_reports_Suc)
qed

lemma batch_loop_v0_raises:
  "list_ex raised fs \<Longrightarrow> fst (batch_loop_v0 cb tot fs s) \<noteq> None"
proof (induction fs arbitrary: s)
  case Nil
  then show ?case by simp
next
  case (Cons f fs)
  obtain i u tr r where f: "f = (i, u, tr, r)" by (cases f) auto
  show ?case
  proof (cases r)
    case (Inl e)
    then show ?thesis unfolding f by simp
  next
    case (Inr result)
    with Cons.prems have "list_ex raised fs" unfolding f by simp
    then show ?thesis unfolding f Inr using Cons.IH by simp
  qed
qed

text \<open>When a task raised, the observer was notified for fewer futures than there are.\<close>

lemma batch_loop_v0_notified_short:
  "list_ex raised fs \<Longrightarrow>
   length (notified (snd (batch_loop_v0 cb tot fs s))) < length (notified s) + length fs"
proof (induction fs arbitrary: s)
  case Nil
  then show ?case by simp
next
  case (Cons f fs)
  obtain i u tr r where f: "f = (i, u, tr, r)" by (cases f) auto
  show ?case
  proof (cases r)
    case (Inl e)
    then show ?thesis unfolding f by simp
  next
    case (Inr result)
    with Cons.prems have rest: "list_ex raised fs" unfolding f by simp
    let ?s' = "s\<lparr>results := results s @ [result],
               completed := Suc (completed s),
               notified := (if cb then notified s @ [(Suc (completed s), tot)] else notified s),
               logged := (if cb then logged s else logged s @ [(Suc (completed s), tot)])\<rparr>"
    have step: "batch_loop_v0 cb tot ((i, u, tr, Inr result) # fs) s = batch_loop_v0 cb tot fs ?s'"
      by simp
    have "length (notified ?s') \<le> Suc (length (notified s))" by simp
    with Cons.IH [OF rest, of ?s'] show ?thesis unfolding f Inr step by simp
  qed
qed

text \<open>
  production-sdk (1).py: the loop runs to its end exactly when every task returned or
  raised \<^verbatim>\<open>APIError\<close>; every future then has its outcome recorded, but only the tasks
  that returned are counted and reported.
\<close>

lemma batch_loop_v1_run:
  "list_all handled_v1 fs \<Longrightarrow>
   batch_loop_v1 w tot fs s =
     (None, s\<lparr>results := results s @ map (outcome w) fs,
              completed := completed s + length (filter (\<lambda>f. \<not> raised f) fs),
              logged := logged s @
                progress_reports (completed s) (length (filter (\<lambda>f. \<not> raised f) fs)) tot\<rparr>)"
proof (induction fs arbitrary: s)
  case Nil
  then show ?case by (simp add: progress_reports_0)
next
  case (Cons f fs)
  obtain i u tr r where f: "f = (i, u, tr, r)" by (cases f) auto
  from Cons.prems have rest: "list_all handled_v1 fs" by simp
  show ?case
  proof (cases r)
    case (Inr result)
    show ?thesis unfolding f Inr by (simp add: Cons.IH [OF rest] progress_reports_Suc)
  next
    case (Inl e)
    with Cons.prems obtain m c where e: "e = APIError m c"
      unfolding f by (cases e) auto
    show ?thesis unfolding f Inl e by (simp add: Cons.IH [OF rest])
  qed
qed

lemma batch_loop_v1_raises:
  "\<not> list_all handled_v1 fs \<Longrightarrow> fst (batch_loop_v1 w tot fs s) \<noteq> None"
proof (induction fs arbitrary: s)
  case Nil
  then show ?case by simp
next
  case (Cons f fs)
  obtain i u tr r where f: "f = (i, u, tr, r)" by (cases f) auto
  show ?case
  proof (cases "handled_v1 f")
    case False
    then show ?thesis unfolding f by (cases r; cases "projl r") auto
  next
    case True
    with Cons.prems have rest: "\<not> list_all handled_v1 fs" by simp
    from True show ?thesis unfolding f using Cons.IH [OF rest]
      by (cases r; cases "projl r") auto
  qed
qed

text \<open>
  production-sdk (2).py: the loop always runs to its end; every future has its outcome
  recorded, is counted and is reported.
\<close>

lemma batch_loop_v2_run:
  "batch_loop_v2 w tot fs s =
     (None, s\<lparr>results := results s @ map (outcome w) fs,
              completed := completed s + length fs,
              logged := logged s @ progress_reports (completed s) (length fs) tot\<rparr>)"
proof (induction fs arbitrary: s)
  case Nil
  then show ?case by (simp add: progress_reports_0)
next
  case (Cons f fs)
  obtain i u tr r where f: "f = (i, u, tr, r)" by (cases f) auto
  show ?case
    unfolding f by (cases r) (simp_all add: Cons.IH progress_reports_Suc)
qed


section \<open>Submission and completion order\<close>

lemma length_submit: "length (submit task urls) = length urls"
  by (simp add: submit_def)

lemma submit_nth:
  "k < length urls \<Longrightarrow> submit task urls ! k = (k, urls ! k, task k (urls ! k))"
  by (simp add: submit_def nth_enumerate_eq)

lemma completion_order_mset:
  "completion_order n order \<Longrightarrow> mset order = mset [0..<n]"
  unfolding completion_order_def by (metis mset_sort)

lemma completion_order_length:
  "completion_order n order \<Longrightarrow> length order = n"
  using completion_order_mset [of n order] by (metis size_mset length_upt diff_zero)

lemma completion_order_set:
  "completion_order n order \<Longrightarrow> set order = {0..<n}"
  using completion_order_mset [of n order] by (metis set_mset_mset set_upt)

lemma mset_nth_order:
  assumes "completion_order (length xs) order"
  shows "mset (map (\<lambda>k. xs ! k) order) = mset xs"
proof -
  have "mset (map (\<lambda>k. xs ! k) order) = image_mset (\<lambda>k. xs ! k) (mset order)" by simp
  also have "\<dots> = image_mset (\<lambda>k. xs ! k) (mset [0..<length xs])"
    using completion_order_mset [OF assms] by simp
  also have "\<dots> = mset (map (\<lambda>k. xs ! k) [0..<length xs])" by simp
  also have "\<dots> = mset xs" by (simp add: map_nth)
  finally show ?thesis .
qed

lemma mset_as_completed:
  "completion_order (length fs) order \<Longrightarrow> mset (as_completed fs order) = mset fs"
  unfolding as_completed_def by (rule mset_nth_order)

lemma set_as_completed:
  "completion_order (length fs) order \<Longrightarrow> set (as_completed fs order) = set fs"
  using mset_as_completed [of fs order] by (metis set_mset_mset)

lemma length_as_completed: "length (as_completed fs order) = length order"
  by (simp add: as_completed_def)

section \<open>Every result carries the URL of its task\<close>

lemma url_succeeded: "url (succeeded u d now) = u"
  by (simp add: succeeded_def)

lemma url_failed: "url (failed u m now) = u"
  by (simp add: failed_def)

lemma process_document_v2_trace: "fst (process_document_v2 post now u) = [Post u]"
  by (auto simp: process_document_v2_def APIClient_post_def split: sum.splits exn.splits data.splits)

lemma process_document_v2_url:
  "snd (process_document_v2 post now u) = Inr result \<Longrightarrow> url result = u"
  by (auto simp: process_document_v2_def APIClient_post_def url_succeeded split: sum.splits exn.splits data.splits)

lemma process_document_v1_trace: "fst (process_document_v1 post now u) = [Post u]"
  by (simp add: process_document_v1_def)

lemma process_document_v1_url:
  "snd (process_document_v1 post now u) = Inr result \<Longrightarrow> url result = u"
  by (auto simp: process_document_v1_def url_succeeded split: sum.splits exn.splits data.splits)

lemma process_document_body_v0_url:
  "snd (process_document_body_v0 post now u) = Inr result \<Longrightarrow> url result = u"
  by (auto simp: process_document_body_v0_def url_succeeded url_failed split: sum.splits exn.splits data.splits)

text \<open>What the decorated function returns, one of its tries returned.\<close>

lemma on_exception_result:
  "snd (on_exception listed max_tries expired wait target tries) = Inr v \<Longrightarrow>
   \<exists>k. snd (target k) = Inr v"
proof (induction listed max_tries expired wait target tries rule: on_exception.induct)
  case (1 listed max_tries expired wait target tries)
  obtain tr r where t: "target tries = (tr, r)" by (cases "target tries") auto
  show ?case
  proof (cases r)
    case (Inr v')
    with "1.prems" t have "v' = v" by (subst (asm) on_exception.simps) simp
    with t Inr show ?thesis by (metis snd_conv)
  next
    case (Inl e)
    show ?thesis
    proof (cases "listed e \<and> Suc tries < max_tries \<and> \<not> expired tries")
      case True
      obtain tr' r' where rec: "on_exception listed max_tries expired wait target (Suc tries) = (tr', r')"
        by (cases "on_exception listed max_tries expired wait target (Suc tries)") auto
      from "1.prems" t Inl True rec have "r' = Inr v"
        by (subst (asm) on_exception.simps) simp
      with rec have "snd (on_exception listed max_tries expired wait target (Suc tries)) = Inr v" by simp
      from "1.IH" [OF t [symmetric] Inl True this] show ?thesis .
    next
      case False
      with "1.prems" t Inl show ?thesis by (subst (asm) on_exception.simps) auto
    qed
  qed
qed

lemma process_document_v0_url:
  "snd (process_document_v0 w i u) = Inr result \<Longrightarrow> url result = u"
proof -
  assume "snd (process_document_v0 w i u) = Inr result"
  then obtain k where
    "snd (process_document_body_v0 (session_post w i k) (datetime_now w i) u) = Inr result"
    unfolding process_document_v0_def using on_exception_result by fast
  then show ?thesis by (rule process_document_body_v0_url)
qed


lemma outcome_submit_url:
  assumes "\<And>i u result. snd (task i u) = Inr result \<Longrightarrow> url result = u"
    and "k < length urls"
  shows "url (outcome w (submit task urls ! k)) = urls ! k"
proof -
  obtain tr r where t: "task k (urls ! k) = (tr, r)" by (cases "task k (urls ! k)") auto
  show ?thesis
  proof (cases r)
    case (Inl e)
    then show ?thesis by (simp add: submit_nth [OF assms(2)] t url_failed)
  next
    case (Inr result)
    with t have "snd (task k (urls ! k)) = Inr result" by simp
    then have "url result = urls ! k" by (rule assms(1))
    then show ?thesis by (simp add: submit_nth [OF assms(2)] t Inr)
  qed
qed

lemma outcomes_urls:
  assumes "\<And>i u result. snd (task i u) = Inr result \<Longrightarrow> url result = u"
    and "completion_order (length urls) order"
  shows "map url (map (outcome w) (as_completed (submit task urls) order)) = map (\<lambda>k. urls ! k) order"
proof -
  have "k \<in> set order \<Longrightarrow> k < length urls" for k
    using completion_order_set [OF assms(2)] by simp
  then show ?thesis
    by (simp add: as_completed_def outcome_submit_url [of task, OF assms(1)])
qed

lemma traces_submit:
  assumes "\<And>i u. fst (task i u) = [Post u]"
  shows "map future_trace (submit task urls) = map (\<lambda>u. [Post u]) urls"
proof (rule nth_equalityI)
  show "length (map future_trace (submit task urls)) = length (map (\<lambda>u. [Post u]) urls)"
    by (simp add: length_submit)
next
  fix k assume "k < length (map future_trace (submit task urls))"
  then have k: "k < length urls" by (simp add: length_submit)
  obtain tr r where t: "task k (urls ! k) = (tr, r)" by (cases "task k (urls ! k)") auto
  with assms [of k "urls ! k"] have "tr = [Post (urls ! k)]" by simp
  then show "map future_trace (submit task urls) ! k = map (\<lambda>u. [Post u]) urls ! k"
    using k by (simp add: length_submit submit_nth t)
qed

section \<open>production-sdk (2).py: the batch as a whole\<close>

text \<open>
  For a non-empty list and a positive \<open>max_workers\<close> the batch returns, for every
  completion order, the outcomes of all futures in that order: one transport call per
  item, one progress report per item, and no exception.
\<close>

lemma process_batch_v2_run:
  assumes "urls \<noteq> []" and "0 < max_workers"
  shows "process_batch_v2 w urls max_workers order =
     \<lparr>returned = Inr (map (outcome w)
         (as_completed (submit (\<lambda>i. process_document_v2 (session_post w i 0) (datetime_now w i)) urls) order)),
      traces = map (\<lambda>u. [Post u]) urls,
      callbacks = [],
      progress_log = progress_reports 0 (length order) (length urls)\<rparr>"
  using assms
  by (simp add: process_batch_v2_def ThreadPoolExecutor_def batch_loop_v2_run finish_def
      initial_state_def traces_submit process_document_v2_trace length_as_completed)

lemma process_batch_v2_complete:
  assumes "urls \<noteq> []" and "0 < max_workers" and "completion_order (length urls) order"
  shows "\<exists>rs. returned (process_batch_v2 w urls max_workers order) = Inr rs
            \<and> length rs = length urls
            \<and> map url rs = map (\<lambda>k. urls ! k) order
            \<and> mset (map url rs) = mset urls"
proof -
  let ?task = "\<lambda>i. process_document_v2 (session_post w i 0) (datetime_now w i)"
  let ?rs = "map (outcome w) (as_completed (submit ?task urls) order)"
  have ret: "returned (process_batch_v2 w urls max_workers order) = Inr ?rs"
    by (simp add: process_batch_v2_run [OF assms(1,2)])
  have len: "length ?rs = length urls"
    by (simp add: length_as_completed completion_order_length [OF assms(3)])
  have urls: "map url ?rs = map (\<lambda>k. urls ! k) order"
    by (rule outcomes_urls [OF _ assms(3)]) (rule process_document_v2_url)
  have "mset (map url ?rs) = mset urls"
    unfolding urls by (rule mset_nth_order [OF assms(3)])
  with ret len urls show ?thesis by blast
qed

lemma process_batch_v2_progress:
  assumes "urls \<noteq> []" and "0 < max_workers" and "completion_order (length urls) order"
  shows "progress_log (process_batch_v2 w urls max_workers order) =
           map (\<lambda>c. (c, length urls)) [1..<Suc (length urls)]"
  by (simp add: process_batch_v2_run [OF assms(1,2)] progress_reports_def
      completion_order_length [OF assms(3)] del: upt_Suc)

section \<open>production-sdk (1).py and production-sdk.py: the batch as a whole\<close>

lemma list_all_as_completed:
  "completion_order (length fs) order \<Longrightarrow> list_all P (as_completed fs order) = list_all P fs"
  by (simp add: list_all_iff set_as_completed)

lemma list_ex_as_completed:
  "completion_order (length fs) order \<Longrightarrow> list_ex P (as_completed fs order) = list_ex P fs"
  by (simp add: list_ex_iff set_as_completed)

lemma filter_as_completed:
  "completion_order (length fs) order \<Longrightarrow>
   length (filter P (as_completed fs order)) = length (filter P fs)"
  using mset_as_completed [of fs order] by (metis mset_filter size_mset)

text \<open>
  production-sdk (1).py returns the outcomes of all futures exactly when every task
  returned or raised \<^verbatim>\<open>APIError\<close>, and raises otherwise; its progress log counts the
  tasks that returned.
\<close>

lemma process_batch_v1_run:
  assumes "0 < max_workers" and "completion_order (length urls) order"
    and "list_all handled_v1 (submit (\<lambda>i. process_document_v1 (session_post w i 0) (datetime_now w i)) urls)"
  shows "process_batch_v1 w urls max_workers order =
     \<lparr>returned = Inr (map (outcome w)
         (as_completed (submit (\<lambda>i. process_document_v1 (session_post w i 0) (datetime_now w i)) urls) order)),
      traces = map (\<lambda>u. [Post u]) urls,
      callbacks = [],
      progress_log = progress_reports 0
        (length (filter (\<lambda>f. \<not> raised f)
           (submit (\<lambda>i. process_document_v1 (session_post w i 0) (datetime_now w i)) urls)))
        (length urls)\<rparr>"
proof -
  let ?fs = "submit (\<lambda>i. process_document_v1 (session_post w i 0) (datetime_now w i)) urls"
  have ord: "completion_order (length ?fs) order" using assms(2) by (simp add: length_submit)
  have "list_all handled_v1 (as_completed ?fs order)"
    using assms(3) by (simp add: list_all_as_completed [OF ord])
  then show ?thesis
    using assms(1)
    by (simp add: process_batch_v1_def ThreadPoolExecutor_def batch_loop_v1_run finish_def
        initial_state_def traces_submit process_document_v1_trace filter_as_completed [OF ord] Let_def)
qed

lemma process_batch_v1_raises:
  assumes "0 < max_workers" and "completion_order (length urls) order"
    and "\<not> list_all handled_v1 (submit (\<lambda>i. process_document_v1 (session_post w i 0) (datetime_now w i)) urls)"
  shows "isl (returned (process_batch_v1 w urls max_workers order))"
proof -
  let ?fs = "submit (\<lambda>i. process_document_v1 (session_post w i 0) (datetime_now w i)) urls"
  have ord: "completion_order (length ?fs) order" using assms(2) by (simp add: length_submit)
  have "\<not> list_all handled_v1 (as_completed ?fs order)"
    using assms(3) by (simp add: list_all_as_completed [OF ord])
  then have "fst (batch_loop_v1 w (length urls) (as_completed ?fs order) initial_state) \<noteq> None"
    by (rule batch_loop_v1_raises)
  then obtain e s where "batch_loop_v1 w (length urls) (as_completed ?fs order) initial_state = (Some e, s)"
    by (cases "batch_loop_v1 w (length urls) (as_completed ?fs order) initial_state") auto
  then show ?thesis
    using assms(1) by (simp add: process_batch_v1_def ThreadPoolExecutor_def finish_def)
qed

text \<open>
  production-sdk.py returns the results of all futures exactly when no task raised, and
  raises otherwise.
\<close>

lemma process_batch_v0_run:
  assumes "0 < max_workers" and "completion_order (length urls) order"
    and "\<not> list_ex raised (submit (process_document_v0 w) urls)"
  shows "process_batch_v0 w urls max_workers cb order =
     \<lparr>returned = Inr (map (outcome w) (as_completed (submit (process_document_v0 w) urls) order)),
      traces = map future_trace (submit (process_document_v0 w) urls),
      callbacks = (if cb then progress_reports 0 (length urls) (length urls) else []),
      progress_log = (if cb then [] else progress_reports 0 (length urls) (length urls))\<rparr>"
proof -
  let ?fs = "submit (process_document_v0 w) urls"
  have ord: "completion_order (length ?fs) order" using assms(2) by (simp add: length_submit)
  have "\<not> list_ex raised (as_completed ?fs order)"
    using assms(3) by (simp add: list_ex_as_completed [OF ord])
  then show ?thesis
    using assms(1)
    by (simp add: process_batch_v0_def ThreadPoolExecutor_def batch_loop_v0_run [where w = w] finish_def
        initial_state_def length_as_completed completion_order_length [OF assms(2)] Let_def)
qed

lemma process_batch_v0_raises:
  assumes "0 < max_workers" and "completion_order (length urls) order"
    and "list_ex raised (submit (process_document_v0 w) urls)"
  shows "isl (returned (process_batch_v0 w urls max_workers cb order))"
proof -
  let ?fs = "submit (process_document_v0 w) urls"
  have ord: "completion_order (length ?fs) order" using assms(2) by (simp add: length_submit)
  have "list_ex raised (as_completed ?fs order)"
    using assms(3) by (simp add: list_ex_as_completed [OF ord])
  then have "fst (batch_loop_v0 cb (length urls) (as_completed ?fs order) initial_state) \<noteq> None"
    by (rule batch_loop_v0_raises)
  then obtain e s where "batch_loop_v0 cb (length urls) (as_completed ?fs order) initial_state = (Some e, s)"
    by (cases "batch_loop_v0 cb (length urls) (as_completed ?fs order) initial_state") auto
  then show ?thesis
    using assms(1) by (simp add: process_batch_v0_def ThreadPoolExecutor_def finish_def)
qed

text \<open>
  production-sdk.py with the observer attached: when a task raises, the observer gets
  fewer than \<open>N\<close> notifications, in every completion order.
\<close>

lemma process_batch_v0_observer_short:
  assumes "0 < max_workers" and "completion_order (length urls) order"
    and "list_ex raised (submit (process_document_v0 w) urls)"
  shows "length (callbacks (process_batch_v0 w urls max_workers True order)) < length urls"
proof -
  let ?fs = "submit (process_document_v0 w) urls"
  have ord: "completion_order (length ?fs) order" using assms(2) by (simp add: length_submit)
  have ex: "list_ex raised (as_completed ?fs order)"
    using assms(3) by (simp add: list_ex_as_completed [OF ord])
  have "length (notified (snd (batch_loop_v0 True (length urls) (as_completed ?fs order) initial_state)))
      < length (notified initial_state) + length (as_completed ?fs order)"
    by (rule batch_loop_v0_notified_short [OF ex])
  then have "length (notified (snd (batch_loop_v0 True (length urls) (as_completed ?fs order) initial_state)))
      < length urls"
    by (simp add: initial_state_def length_as_completed completion_order_length [OF assms(2)])
  then show ?thesis
    using assms(1)
    by (cases "batch_loop_v0 True (length urls) (as_completed ?fs order) initial_state")
       (auto simp: process_batch_v0_def ThreadPoolExecutor_def finish_def Let_def split: option.splits)
qed

text \<open>
  What production-sdk (2).py records for item \<open>k\<close> depends on the transport call of that
  item alone: a decoded object gives the succeeded result, and every failure, of
  whatever kind, gives a failed result for the same URL.
\<close>

lemma outcome_v2_of_item:
  assumes "k < length urls"
  shows "outcome w (submit (\<lambda>i. process_document_v2 (session_post w i 0) (datetime_now w i)) urls ! k) =
     (case session_post w k 0 (urls ! k) of
        Inr (Dict d) \<Rightarrow> succeeded (urls ! k) d (datetime_now w k)
      | Inr (NonDict ty) \<Rightarrow>
          failed (urls ! k) (str_exn (no_attribute ty ''get'')) (datetime_now w k)
      | Inl (RequestException kind m) \<Rightarrow>
          failed (urls ! k) (''API request failed: '' @ m) (datetime_now w k)
      | Inl e \<Rightarrow> failed (urls ! k) (str_exn e) (datetime_now w k))"
  by (simp add: submit_nth [OF assms] process_document_v2_def APIClient_post_def
      split: sum.splits exn.splits data.splits)

section \<open>production-sdk.py: the decorated process_document\<close>

text \<open>
  The body of \<^verbatim>\<open>process_document\<close> turns a \<^verbatim>\<open>RequestException\<close> into a failed result
  itself, so the decorator sees a normal return and never retries: one transport call,
  no sleep.
\<close>

lemma process_document_v0_request_exception:
  "session_post w i 0 u = Inl (RequestException k m) \<Longrightarrow>
   process_document_v0 w i u = ([Post u], Inr (failed u m (datetime_now w i)))"
  by (simp add: process_document_v0_def process_document_body_v0_def)

lemma process_document_v0_dict:
  "session_post w i 0 u = Inr (Dict d) \<Longrightarrow>
   process_document_v0 w i u = ([Post u], Inr (succeeded u d (datetime_now w i)))"
  by (simp add: process_document_v0_def process_document_body_v0_def)

lemma process_document_v0_nondict:
  "session_post w i 0 u = Inr (NonDict ty) \<Longrightarrow>
   process_document_v0 w i u = ([Post u], Inl (no_attribute ty ''get''))"
  by (simp add: process_document_v0_def process_document_body_v0_def no_attribute_def)

lemma process_document_v0_raises_unlisted:
  "session_post w i 0 u = Inl e \<Longrightarrow> \<not> retried_v0 e \<Longrightarrow>
   process_document_v0 w i u = ([Post u], Inl e)"
  by (cases e) (simp_all add: process_document_v0_def process_document_body_v0_def)

section \<open>Properties of the schedulers\<close>

lemma fold_remove1_Cons:
  "y \<notin> set xs \<Longrightarrow> fold remove1 xs (y # ys) = y # fold remove1 xs ys"
  by (induction xs arbitrary: ys) auto

lemma fold_remove1_filter:
  "fold remove1 (filter P ys) ys = filter (\<lambda>x. \<not> P x) ys"
proof (induction ys)
  case Nil
  then show ?case by simp
next
  case (Cons y ys)
  show ?case
  proof (cases "P y")
    case True
    then show ?thesis using Cons.IH by simp
  next
    case False
    then have "y \<notin> set (filter P ys)" by auto
    then show ?thesis using False Cons.IH by (simp add: fold_remove1_Cons)
  qed
qed

text \<open>Removing the jobs found under a comment leaves the jobs with any other comment.\<close>

lemma remove_jobs_find_comment:
  "remove_jobs (find_comment crons c) crons = filter (\<lambda>job. job_comment job \<noteq> c) crons"
  by (simp add: remove_jobs_def find_comment_def fold_remove1_filter)

lemma labelled_remove_jobs_same:
  "labelled c (remove_jobs (find_comment crons c) crons) = 0"
  unfolding labelled_def remove_jobs_find_comment by (simp add: find_comment_def)

lemma labelled_remove_jobs_other:
  "c' \<noteq> c \<Longrightarrow> labelled c' (remove_jobs (find_comment crons c) crons) = labelled c' crons"
proof -
  assume "c' \<noteq> c"
  then have "(job_comment job \<noteq> c \<and> job_comment job = c') = (job_comment job = c')" for job :: cron_job
    by auto
  then show ?thesis
    unfolding labelled_def remove_jobs_find_comment by (simp add: find_comment_def)
qed

lemma labelled_append: "labelled c (xs @ ys) = labelled c xs + labelled c ys"
  by (simp add: labelled_def find_comment_def)

lemma schedule_job_steps_success:
  assumes "schedule_job_steps pkg script_path schedule c crons stored = (Inr job, crons', stored')"
  shows "labelled c crons' = 1 \<and> stored' = crons' \<and> job \<in> set crons'
       \<and> job_command job = ''python '' @ script_path \<and> job_comment job = c
       \<and> job_setall pkg schedule = Inr (job_schedule job)"
proof -
  let ?crons1 = "remove_jobs (find_comment crons c) crons"
  from assms obtain rendered where r: "job_setall pkg schedule = Inr rendered"
    by (cases "job_setall pkg schedule") (auto simp: schedule_job_steps_def Let_def)
  let ?job = "\<lparr>job_command = ''python '' @ script_path, job_comment = c, job_schedule = rendered\<rparr>"
  from assms r have "job = ?job \<and> crons' = ?crons1 @ [?job] \<and> stored' = crons'"
    by (auto simp: schedule_job_steps_def Let_def new_job_def split: option.splits)
  moreover have "labelled c (?crons1 @ [?job]) = 1"
    by (simp add: labelled_append labelled_remove_jobs_same) (simp add: labelled_def find_comment_def)
  ultimately show ?thesis using r by simp
qed

text \<open>
  \<^verbatim>\<open>schedule_job\<close> of production-sdk.py and production-sdk (2).py: after a registration
  that succeeds, exactly one job carries the comment, in \<^verbatim>\<open>self.cron\<close> and in the
  stored crontab, whatever was registered before; the jobs under other comments are
  kept; a registration that fails leaves the stored crontab as it was.
\<close>

lemma schedule_job_v2_registers_once:
  assumes "schedule_job_v2 pkg script_path schedule c crons stored = (Inr job, crons', stored')"
  shows "labelled c crons' = 1 \<and> labelled c stored' = 1 \<and> job_comment job = c
       \<and> job_setall pkg schedule = Inr (job_schedule job)"
proof -
  from assms have "schedule_job_steps pkg script_path schedule c crons stored = (Inr job, crons', stored')"
    by (auto simp: schedule_job_v2_def split: prod.splits sum.splits)
  from schedule_job_steps_success [OF this] show ?thesis by simp
qed

lemma schedule_job_v0_registers_once:
  assumes "schedule_job_v0 pkg script_path schedule c crons stored = (Inr job, crons', stored')"
  shows "labelled c crons' = 1 \<and> labelled c stored' = 1 \<and> job_comment job = c
       \<and> job_setall pkg schedule = Inr (job_schedule job)"
proof -
  from assms have "schedule_job_steps pkg script_path schedule c crons stored = (Inr job, crons', stored')"
    by (auto simp: schedule_job_v0_def split: prod.splits sum.splits)
  from schedule_job_steps_success [OF this] show ?thesis by simp
qed

lemma schedule_job_steps_other_labels:
  assumes "schedule_job_steps pkg script_path schedule c crons stored = (Inr job, crons', stored')"
    and "c' \<noteq> c"
  shows "labelled c' crons' = labelled c' crons"
proof -
  from assms(1) obtain rendered where "crons' = remove_jobs (find_comment crons c) crons @
      [\<lparr>job_command = ''python '' @ script_path, job_comment = c, job_schedule = rendered\<rparr>]"
    by (cases "job_setall pkg schedule")
       (auto simp: schedule_job_steps_def Let_def new_job_def split: option.splits)
  then show ?thesis
    using assms(2) by (simp add: labelled_append labelled_remove_jobs_other) (simp add: labelled_def find_comment_def)
qed

lemma schedule_job_steps_failure:
  "schedule_job_steps pkg script_path schedule c crons stored = (Inl e, crons', stored') \<Longrightarrow> stored' = stored"
  by (auto simp: schedule_job_steps_def Let_def split: option.splits sum.splits)

text \<open>\<^verbatim>\<open>create_cron_job\<close> of sdk_0.py removes nothing: every success adds one more job.\<close>

lemma create_cron_job_adds:
  "create_cron_job pkg script_path schedule stored = (None, stored') \<Longrightarrow>
   labelled ''Process Documents Cron Job'' stored' = Suc (labelled ''Process Documents Cron Job'' stored)"
  by (auto simp: create_cron_job_def Let_def new_job_def labelled_def find_comment_def
      split: option.splits sum.splits)

section \<open>Properties of forge/auth.py\<close>

lemma os_unbound: "global_name auth_globals ''os'' = Some (NameError ''os'')"
  by (simp add: global_name_def auth_globals_def)

lemma authenticate_value:
  "authenticate config path_exists load =
     (case config ''GCP_JSON_KEY_PATH'' of
        None \<Rightarrow> Inl (not_found None)
      | Some p \<Rightarrow>
          if p = [] then Inl (not_found (Some p))
          else Inl (AuthenticationError ''Authentication failed'' (Some (NameError ''os''))))"
  by (simp add: authenticate_def authenticate_body_def Let_def os_unbound not_found_def
      split: option.splits)

section \<open>The claims about the batch operation\<close>

lemma upt_two: "[0..<2] = [0, Suc 0]"
  by (simp add: upt_rec)

lemmas batch_defs = ThreadPoolExecutor_def submit_def as_completed_def finish_def initial_state_def
  enumerate_eq_zip raised_before_work_def completion_order_def upt_two Let_def

text \<open>
  Claim C1. For every non-empty list of \<open>N\<close> document URLs the batch operation returns
  exactly \<open>N\<close> outcomes, each input item being the reference of exactly one outcome,
  however many items succeed or fail.

  production-sdk (2).py does so (\<open>process_batch_v2_complete\<close>). production-sdk.py does
  not: its loop has no handler, so an item whose task raises ends the batch with that
  exception (\<open>process_batch_v0_raises\<close>). Here the API answers the first of two
  documents with a JSON list: \<^verbatim>\<open>data.get\<close> raises \<^verbatim>\<open>AttributeError\<close>, which
  \<^verbatim>\<open>except RequestException\<close> does not catch, and \<^verbatim>\<open>process_batch\<close> raises it in
  either completion order instead of returning two outcomes. production-sdk (2).py
  returns both outcomes on the same input.
\<close>

theorem batch_v0_aborts_on_unhandled_item:
  "completion_order 2 [0, 1] \<and> completion_order 2 [1, 0]
   \<and> returned (process_batch_v0
        \<lparr>session_post = (\<lambda>i k u. if i = 0 then Inr (NonDict ''list'') else Inr (Dict [])),
         datetime_now = now, backoff_wait = wait, backoff_expired = expired\<rparr>
        [''a'', ''b''] 5 cb [0, 1]) = Inl (no_attribute ''list'' ''get'')
   \<and> returned (process_batch_v0
        \<lparr>session_post = (\<lambda>i k u. if i = 0 then Inr (NonDict ''list'') else Inr (Dict [])),
         datetime_now = now, backoff_wait = wait, backoff_expired = expired\<rparr>
        [''a'', ''b''] 5 cb [1, 0]) = Inl (no_attribute ''list'' ''get'')
   \<and> returned (process_batch_v2
        \<lparr>session_post = (\<lambda>i k u. if i = 0 then Inr (NonDict ''list'') else Inr (Dict [])),
         datetime_now = now, backoff_wait = wait, backoff_expired = expired\<rparr>
        [''a'', ''b''] 5 [0, 1])
       = Inr [failed ''a'' (str_exn (no_attribute ''list'' ''get'')) (now 0), succeeded ''b'' [] (now 1)]"
  by (simp add: process_batch_v0_def process_batch_v2_def batch_defs
      process_document_v0_def process_document_body_v0_def process_document_v2_def APIClient_post_def
      no_attribute_def)

text \<open>
  Claim C2. Every failure raised while one item is processed, of any kind, is caught at
  that item's boundary and recorded as a failed outcome; no such failure is raised out
  of the batch call, and a failing item never keeps a sibling from its own outcome.

  production-sdk (2).py does so: its handler is \<^verbatim>\<open>except Exception\<close>
  (\<open>process_batch_v2_run\<close>, \<open>outcome_v2_of_item\<close>). production-sdk (1).py catches
  \<^verbatim>\<open>APIError\<close> only (\<open>process_batch_v1_raises\<close>). On the input of claim C1, with the
  second document finishing first, its batch raises \<^verbatim>\<open>AttributeError\<close> after the
  sibling was processed, and the sibling's outcome is lost with the batch;
  production-sdk (2).py returns both outcomes.
\<close>

theorem batch_v1_lets_failure_escape:
  "completion_order 2 [1, 0]
   \<and> process_batch_v1
        \<lparr>session_post = (\<lambda>i k u. if i = 0 then Inr (NonDict ''list'') else Inr (Dict [])),
         datetime_now = now, backoff_wait = wait, backoff_expired = expired\<rparr>
        [''a'', ''b''] 5 [1, 0]
       = \<lparr>returned = Inl (no_attribute ''list'' ''get''), traces = [[Post ''a''], [Post ''b'']],
          callbacks = [], progress_log = [(1, 2)]\<rparr>
   \<and> process_batch_v2
        \<lparr>session_post = (\<lambda>i k u. if i = 0 then Inr (NonDict ''list'') else Inr (Dict [])),
         datetime_now = now, backoff_wait = wait, backoff_expired = expired\<rparr>
        [''a'', ''b''] 5 [1, 0]
       = \<lparr>returned = Inr [succeeded ''b'' [] (now 1),
                          failed ''a'' (str_exn (no_attribute ''list'' ''get'')) (now 0)],
          traces = [[Post ''a''], [Post ''b'']], callbacks = [],
          progress_log = [(1, 2), (2, 2)]\<rparr>"
  by (simp add: process_batch_v1_def process_batch_v2_def batch_defs
      process_document_v1_def process_document_v2_def APIClient_post_def no_attribute_def)

text \<open>
  Claim C3. The batch operation called with an empty list always fails with
  \<^verbatim>\<open>ValidationError\<close> before any work starts, makes no transport call, and never
  returns an empty result list.

  production-sdk (2).py does so, for every \<open>max_workers\<close>. production-sdk.py and
  sdk_0.py have no such check: both return the empty list (and make no transport
  call).
\<close>

theorem batch_v0_accepts_empty_input:
  "process_batch_v0 w [] 5 cb [] = \<lparr>returned = Inr [], traces = [], callbacks = [], progress_log = []\<rparr>
   \<and> process_documents_sdk0 too_long endpoint net [] = ([], [])
   \<and> process_batch_v2 w [] max_workers order =
       \<lparr>returned = Inl (ValidationError ''No URLs provided for processing''), traces = [],
        callbacks = [], progress_log = []\<rparr>"
  by (simp add: process_batch_v0_def process_batch_v2_def process_documents_sdk0_def batch_defs)

text \<open>
  Claim C6. For every batch of \<open>N\<close> items with a progress observer attached, the
  progress notification fires exactly \<open>N\<close> times, with completed counts rising from
  \<open>1\<close> to \<open>N\<close>, and the last one reports \<open>(N, N)\<close>, also when some items fail.

  Only \<^verbatim>\<open>process_batch\<close> of production-sdk.py takes an observer
  (\<^verbatim>\<open>progress_callback\<close>). With the observer attached it notifies \<open>N\<close> times, ending
  with \<open>(N, N)\<close>, when no task raises (\<open>process_batch_v0_run\<close>); an item whose transport
  call fails with a \<^verbatim>\<open>RequestException\<close> is notified like any other (last conjunct).
  But an item whose task raises ends the loop, which has no handler, and the observer
  gets fewer than \<open>N\<close> notifications (\<open>process_batch_v0_observer_short\<close>). On the input
  of claim C1 with the observer attached it is notified not at all when the failing
  item completes first, and once, with \<open>(1, 2)\<close>, when it completes last; never with
  \<open>(2, 2)\<close>.
\<close>

theorem batch_v0_observer_misses_reports:
  "completion_order 2 [0, 1] \<and> completion_order 2 [1, 0]
   \<and> process_batch_v0
        \<lparr>session_post = (\<lambda>i k u. if i = 0 then Inr (NonDict ''list'') else Inr (Dict [])),
         datetime_now = now, backoff_wait = wait, backoff_expired = expired\<rparr>
        [''a'', ''b''] 5 True [0, 1]
       = \<lparr>returned = Inl (no_attribute ''list'' ''get''), traces = [[Post ''a''], [Post ''b'']],
          callbacks = [], progress_log = []\<rparr>
   \<and> process_batch_v0
        \<lparr>session_post = (\<lambda>i k u. if i = 0 then Inr (NonDict ''list'') else Inr (Dict [])),
         datetime_now = now, backoff_wait = wait, backoff_expired = expired\<rparr>
        [''a'', ''b''] 5 True [1, 0]
       = \<lparr>returned = Inl (no_attribute ''list'' ''get''), traces = [[Post ''a''], [Post ''b'']],
          callbacks = [(1, 2)], progress_log = []\<rparr>
   \<and> callbacks (process_batch_v0
        \<lparr>session_post = (\<lambda>i k u. if i = 0 then Inl (RequestException NetworkFailure ''down'') else Inr (Dict [])),
         datetime_now = now, backoff_wait = wait, backoff_expired = expired\<rparr>
        [''a'', ''b''] 5 True [0, 1]) = [(1, 2), (2, 2)]"
  by (simp add: process_batch_v0_def batch_defs
      process_document_v0_def process_document_body_v0_def no_attribute_def)

section \<open>The claims about retrying\<close>

text \<open>
  Claim C4. For an item whose transport call fails with a non-retryable classification
  (an HTTP 4xx status or a decode failure) the retrying executor makes exactly one
  transport call, incurs no backoff delay, and the outcome is failed at once.

  No function of the repository classifies failures. \<open>retry\<close> of forge/utils.py retries
  whatever \<^verbatim>\<open>func\<close> raises: a call answered with status 404 on every attempt is made
  three times, with two sleeps (of 2 and 4 seconds, which \<^verbatim>\<open>sleep\<close> accepts).
\<close>

theorem retry_retries_client_error:
  "non_retryable (HTTPStatus 404)
   \<and> sleeps_accepted cpython_too_long 2 2
   \<and> \<not> made_once (fst (retry cpython_too_long
          (\<lambda>k. Inl (RequestException (HTTPStatus 404) ''Not Found'') :: exn + data) 3 2))"
  by (simp add: made_once_def retry_def py_range_def upt_rec sleeps_accepted_def sleep_def
      cpython_too_long_def)

text \<open>
  Claim C4, amended. In production-sdk.py an item whose transport call fails with a
  non-retryable classification costs exactly one transport call and no delay, and
  \<^verbatim>\<open>process_document\<close> returns the failed outcome at once (as it does for every
  \<^verbatim>\<open>RequestException\<close>). \<open>retry\<close> of forge/utils.py has no classification: a call that
  fails non-retryably on every attempt is made \<open>retries\<close> times, with a sleep of
  \<open>delay * 2 ^ k\<close> after failed attempt \<open>k\<close> except the last, before the last error is
  raised, provided \<^verbatim>\<open>sleep\<close> accepts each of these \<open>retries - 1\<close> lengths, that is,
  provided none is negative or more than the platform can sleep. (When \<^verbatim>\<open>sleep\<close>
  rejects the first length, the call is made once and the exception of \<^verbatim>\<open>sleep\<close> is
  raised: \<open>retry_sleep_rejected\<close>.)
\<close>

theorem non_retryable_once_in_v0_retried_by_retry:
  "(non_retryable k \<and> session_post w i 0 u = Inl (RequestException k m) \<longrightarrow>
      process_document_v0 w i u = ([Post u], Inr (failed u m (datetime_now w i)))
      \<and> made_once (fst (process_document_v0 w i u)))
   \<and> (0 < retries \<and> (\<forall>j. func j = Inl (RequestException (kind j) (msg j)) \<and> non_retryable (kind j))
        \<and> sleeps_accepted too_long delay (nat retries - 1) \<longrightarrow>
      retry too_long func retries delay =
        (backoff_trace delay 0 (nat retries),
         Inl (RequestException (kind (nat retries - 1)) (msg (nat retries - 1))))
      \<and> length (filter is_Call (fst (retry too_long func retries delay))) = nat retries)"
proof (intro conjI impI)
  assume a: "non_retryable k \<and> session_post w i 0 u = Inl (RequestException k m)"
  then show "process_document_v0 w i u = ([Post u], Inr (failed u m (datetime_now w i)))"
    by (simp add: process_document_v0_request_exception)
  from a show "made_once (fst (process_document_v0 w i u))"
    by (simp add: process_document_v0_request_exception made_once_def)
next
  assume a: "0 < retries \<and> (\<forall>j. func j = Inl (RequestException (kind j) (msg j)) \<and> non_retryable (kind j))
        \<and> sleeps_accepted too_long delay (nat retries - 1)"
  then have pos: "0 < retries" and f: "\<And>j. func j = Inl (RequestException (kind j) (msg j))"
    and sl: "sleeps_accepted too_long delay (nat retries - 1)"
    by simp_all
  show r: "retry too_long func retries delay =
        (backoff_trace delay 0 (nat retries),
         Inl (RequestException (kind (nat retries - 1)) (msg (nat retries - 1))))"
    by (rule retry_all_fail [OF pos f sl])
  show "length (filter is_Call (fst (retry too_long func retries delay))) = nat retries"
    by (simp add: r calls_backoff_trace)
qed

theorem non_retryable_once_in_v0_retried_by_retry_witness:
  "non_retryable (HTTPStatus 404)
   \<and> process_document_v0
        \<lparr>session_post = (\<lambda>i k u. Inl (RequestException (HTTPStatus 404) ''Not Found'')),
         datetime_now = (\<lambda>i. 0), backoff_wait = (\<lambda>k. 1), backoff_expired = (\<lambda>k. False)\<rparr> 0 ''a''
       = ([Post ''a''], Inr (failed ''a'' ''Not Found'' 0))
   \<and> (0::int) < 3
   \<and> sleeps_accepted cpython_too_long 2 (nat 3 - 1)
   \<and> retry cpython_too_long (\<lambda>j. Inl (RequestException (HTTPStatus 404) ''Not Found'') :: exn + data) 3 2
       = ([Call 0, Sleep 2, Call 1, Sleep 4, Call 2], Inl (RequestException (HTTPStatus 404) ''Not Found''))"
proof -
  have sl: "sleeps_accepted cpython_too_long 2 (nat 3 - 1)"
    by (simp add: sleeps_accepted_def sleep_def cpython_too_long_def upt_rec)
  show ?thesis
    using sl non_retryable_once_in_v0_retried_by_retry [of "HTTPStatus 404"
      "\<lparr>session_post = (\<lambda>i k u. Inl (RequestException (HTTPStatus 404) ''Not Found'')),
        datetime_now = (\<lambda>i. 0), backoff_wait = (\<lambda>k. 1), backoff_expired = (\<lambda>k. False)\<rparr>"
      0 "''a''" "''Not Found''" 3
      "\<lambda>j. Inl (RequestException (HTTPStatus 404) ''Not Found'') :: exn + data"
      "\<lambda>j. HTTPStatus 404" "\<lambda>j. ''Not Found''" cpython_too_long 2]
    by (simp add: eval_nat_numeral)
qed

text \<open>
  Claim C5. For an item whose transport call fails retryably on every attempt the
  retrying executor makes exactly \<open>maxAttempts\<close> (by default 3) transport calls, with a
  delay of \<open>baseDelay * 2 ^ (k - 1)\<close> before retry \<open>k\<close>, none before the first attempt
  and none after the last, and the item ends failed.

  \<open>retry\<close> of forge/utils.py does so (\<open>retry_all_fail\<close>, and the second equation
  below). \<open>retry\<close> of sdk_0.py sleeps after the last failed attempt as well, 8 seconds
  by default, before it raises (\<open>retry_sdk0_all_fail\<close>). \<^verbatim>\<open>process_document\<close> of
  production-sdk.py, decorated to be tried three times, is tried once: its body
  returns the failed result itself, so the decorator never sees the exception. The
  defaults are \<open>retries = 3\<close> and \<open>delay = 2\<close>; the platform is any that can sleep 2, 4
  and 8 seconds.
\<close>

theorem always_failing_call_in_sdk0_and_v0:
  "(too_long 2 = None \<and> too_long 4 = None \<and> too_long 8 = None \<longrightarrow>
      retry_sdk0 too_long (\<lambda>k. Inl (RequestException NetworkFailure ''down'') :: exn + data) 3 2
        = ([Call 0, Sleep 2, Call 1, Sleep 4, Call 2, Sleep 8], Inl (Exception ''All 3 retries failed.''))
      \<and> retry too_long (\<lambda>k. Inl (RequestException NetworkFailure ''down'') :: exn + data) 3 2
        = ([Call 0, Sleep 2, Call 1, Sleep 4, Call 2], Inl (RequestException NetworkFailure ''down'')))
   \<and> process_document_v0
        \<lparr>session_post = (\<lambda>i k u. Inl (RequestException NetworkFailure ''down'')),
         datetime_now = now, backoff_wait = wait, backoff_expired = expired\<rparr> i u
       = ([Post u], Inr (failed u ''down'' (now i)))"
  by (simp add: retry_sdk0_def retry_def py_range_def upt_rec str_int_def digit_char_def sleep_def
      process_document_v0_def process_document_body_v0_def)

theorem always_failing_call_in_sdk0_and_v0_witness:
  "cpython_too_long 2 = None \<and> cpython_too_long 4 = None \<and> cpython_too_long 8 = None
   \<and> retry_sdk0 cpython_too_long (\<lambda>k. Inl (RequestException NetworkFailure ''down'') :: exn + data) 3 2
        = ([Call 0, Sleep 2, Call 1, Sleep 4, Call 2, Sleep 8], Inl (Exception ''All 3 retries failed.''))
   \<and> retry cpython_too_long (\<lambda>k. Inl (RequestException NetworkFailure ''down'') :: exn + data) 3 2
        = ([Call 0, Sleep 2, Call 1, Sleep 4, Call 2], Inl (RequestException NetworkFailure ''down''))"
proof -
  have ok: "cpython_too_long 2 = None \<and> cpython_too_long 4 = None \<and> cpython_too_long 8 = None"
    by (simp add: cpython_too_long_def)
  show ?thesis
    using ok always_failing_call_in_sdk0_and_v0 [of cpython_too_long]
    by simp
qed

section \<open>The claim about scheduling\<close>

text \<open>
  Claim C8. Scheduling a periodic job is idempotent in the label: a registration under
  a label that is already registered replaces the earlier one, so that after any
  number of registrations under one label exactly one entry carries it.

  \<^verbatim>\<open>schedule_job\<close> of production-sdk.py and production-sdk (2).py does so
  (\<open>schedule_job_v0_registers_once\<close>, \<open>schedule_job_v2_registers_once\<close>).
  \<^verbatim>\<open>create_cron_job\<close> of sdk_0.py registers under the fixed comment
  \<^verbatim>\<open>Process Documents Cron Job\<close> and removes nothing (\<open>create_cron_job_adds\<close>): two
  calls leave two entries with that comment.
\<close>

theorem create_cron_job_accumulates_entries:
  "labelled ''Process Documents Cron Job''
     (snd (create_cron_job \<lparr>job_setall = (\<lambda>s. Inr s), cron_write = (\<lambda>t. None)\<rparr> ''run.py'' ''0 18 * * *''
        (snd (create_cron_job \<lparr>job_setall = (\<lambda>s. Inr s), cron_write = (\<lambda>t. None)\<rparr> ''run.py'' ''0 18 * * *'' [])))) = 2
   \<and> labelled ''Job''
     (snd (schedule_processing_v2 \<lparr>job_setall = (\<lambda>s. Inr s), cron_write = (\<lambda>t. None)\<rparr> ''run.py'' ''0 18 * * *'' ''Job''
        (snd (schedule_processing_v2 \<lparr>job_setall = (\<lambda>s. Inr s), cron_write = (\<lambda>t. None)\<rparr> ''run.py'' ''0 18 * * *'' ''Job'' [])))) = 1"
  by (simp add: create_cron_job_def schedule_processing_v2_def schedule_job_v2_def schedule_job_steps_def
      labelled_def find_comment_def remove_jobs_def new_job_def Let_def)

section \<open>The claim about authentication\<close>

text \<open>
  Claim C9. For every configuration, \<open>authenticate\<close> of forge/auth.py raises
  \<^verbatim>\<open>AuthenticationError\<close> and never returns credentials: where the function evaluates
  \<^verbatim>\<open>os.path.exists\<close>, that is for every key path that is not empty, the name \<^verbatim>\<open>os\<close> is
  not bound in the module, and the \<^verbatim>\<open>NameError\<close> is caught by the blanket handler and
  raised again as \<^verbatim>\<open>AuthenticationError("Authentication failed", e)\<close>, whatever the file
  system holds.
\<close>

theorem authenticate_always_raises:
  "(\<exists>m c. authenticate config path_exists load = Inl (AuthenticationError m c))
   \<and> (\<forall>p. config ''GCP_JSON_KEY_PATH'' = Some p \<and> p \<noteq> [] \<longrightarrow>
          authenticate config path_exists load
            = Inl (AuthenticationError ''Authentication failed'' (Some (NameError ''os''))))"
  by (simp add: authenticate_value not_found_def split: option.splits)

theorem authenticate_always_raises_witness:
  "[''GCP_JSON_KEY_PATH'' \<mapsto> ''key.json''] ''GCP_JSON_KEY_PATH'' = Some ''key.json'' \<and> ''key.json'' \<noteq> []
   \<and> authenticate [''GCP_JSON_KEY_PATH'' \<mapsto> ''key.json''] (\<lambda>p. True) (\<lambda>p. Inr (Dict []))
       = Inl (AuthenticationError ''Authentication failed'' (Some (NameError ''os'')))"
  using authenticate_always_raises [of "[''GCP_JSON_KEY_PATH'' \<mapsto> ''key.json'']" "\<lambda>p. True" "\<lambda>p. Inr (Dict [])"]
  by simp

end
